theory Spec2Isabelle
  imports Main "HOL-Library.Sublist" "HOL-Library.AList"
begin

section \<open>Python values and strings\<close>

text \<open>
  JSON documents as Python sees them after \<^verbatim>\<open>response.json()\<close> or \<^verbatim>\<open>jwt.decode\<close>:
  \<^verbatim>\<open>None\<close>, booleans, integers, strings, lists and dicts. A dict is an association
  list; \<open>map_of\<close> looks a key up.
\<close>

datatype json = JNull | JBool bool | JInt int | JStr string
  | JArr "json list" | JObj "(string \<times> json) list"

type_synonym dict = "(string \<times> json) list"

text \<open>What the program can be answered with: an \<^verbatim>\<open>HTTPException\<close> of the code or of
  FastAPI, FastAPI's own rejection of a request that lacks a required parameter, or any
  other Python exception (named by its class).\<close>

datatype failure = HTTPException nat string | RequestValidationError string | Error string

text \<open>Python truthiness, as used by \<^verbatim>\<open>if data:\<close> and \<^verbatim>\<open>if devices:\<close>.\<close>

fun truthy :: "json \<Rightarrow> bool" where
  "truthy JNull = False"
| "truthy (JBool b) = b"
| "truthy (JInt n) = (n \<noteq> 0)"
| "truthy (JStr s) = (s \<noteq> [])"
| "truthy (JArr xs) = (xs \<noteq> [])"
| "truthy (JObj kvs) = (kvs \<noteq> [])"

text \<open>\<^verbatim>\<open>d.get(key, default)\<close>\<close>

definition dict_get :: "('k \<times> 'v) list \<Rightarrow> 'k \<Rightarrow> 'v \<Rightarrow> 'v" where
  "dict_get d k dflt = (case map_of d k of None \<Rightarrow> dflt | Some v \<Rightarrow> v)"

text \<open>\<^verbatim>\<open>sub in s\<close> on strings: \<open>sub\<close> occurs somewhere in \<open>s\<close>.\<close>

fun py_in :: "string \<Rightarrow> string \<Rightarrow> bool" where
  "py_in sub [] = (sub = [])"
| "py_in sub (c # cs) = (prefix sub (c # cs) \<or> py_in sub cs)"

text \<open>\<^verbatim>\<open>s.lower()\<close> and \<^verbatim>\<open>s.upper()\<close> on ASCII text.\<close>

definition ascii_uppercase :: string where
  "ascii_uppercase = ''ABCDEFGHIJKLMNOPQRSTUVWXYZ''"

definition ascii_lowercase :: string where
  "ascii_lowercase = ''abcdefghijklmnopqrstuvwxyz''"

definition digits :: string where
  "digits = ''0123456789''"

definition lower :: "string \<Rightarrow> string" where
  "lower s = map (\<lambda>c. dict_get (zip ascii_uppercase ascii_lowercase) c c) s"

definition upper :: "string \<Rightarrow> string" where
  "upper s = map (\<lambda>c. dict_get (zip ascii_lowercase ascii_uppercase) c c) s"

text \<open>\<^verbatim>\<open>sep.join(xs)\<close>\<close>

fun join :: "string \<Rightarrow> string list \<Rightarrow> string" where
  "join sep [] = []"
| "join sep [x] = x"
| "join sep (x # y # ys) = x @ sep @ join sep (y # ys)"

text \<open>
  \<^verbatim>\<open>s.replace(old, new)\<close>: the occurrences of \<open>old\<close> are found from the left,
  without overlap, and each is replaced by \<open>new\<close>. With an empty \<open>old\<close> Python puts
  \<open>new\<close> before every character and at the end.
\<close>

function replace_from :: "string \<Rightarrow> string \<Rightarrow> string \<Rightarrow> string" where
  "replace_from old new [] = []"
| "replace_from old new (c # cs) =
     (if old \<noteq> [] \<and> prefix old (c # cs)
      then new @ replace_from old new (drop (length old) (c # cs))
      else c # replace_from old new cs)"
  by pat_completeness auto
termination
  by (relation "measure (\<lambda>(old, new, s). length s)") auto

definition str_replace :: "string \<Rightarrow> string \<Rightarrow> string \<Rightarrow> string" where
  "str_replace s old new =
     (if old = [] then new @ concat (map (\<lambda>c. c # new) s) else replace_from old new s)"

section \<open>Device detection (app/api/devices.py)\<close>

record DeviceInfo =
  device_type :: string
  manufacturer :: "string option"
  model :: "string option"
  device_id :: "string option"
  ip_address :: "string option"
  capabilities :: "string list"

record http_response =
  status_code :: nat
  text_body :: string
  headers :: "(string \<times> string) list"

text \<open>
  The network as one probe sees it. \<open>connect_ex\<close> is the socket call of
  \<^verbatim>\<open>check_port\<close> (an error number, 0 for a connection, or an exception);
  \<open>acs_devices\<close> is the registry query sent to the auto-configuration server (the
  status and the body parsed as JSON, \<open>None\<close> when it does not parse);
  \<open>http_get\<close> is the GET of the fingerprint check.
\<close>

record net =
  connect_ex :: "string \<Rightarrow> nat \<Rightarrow> failure + int"
  acs_devices :: "string \<Rightarrow> failure + (nat \<times> json option)"
  http_get :: "string \<Rightarrow> failure + http_response"

definition check_port :: "net \<Rightarrow> string \<Rightarrow> nat \<Rightarrow> bool" where
  "check_port env host port =
     (case connect_ex env host port of Inl e \<Rightarrow> False | Inr result \<Rightarrow> result = 0)"

definition detect_starlink :: "net \<Rightarrow> string \<Rightarrow> DeviceInfo option" where
  "detect_starlink env ip =
     (if ip \<noteq> ''192.168.100.1'' then None
      else if check_port env ip 9200 then
        Some \<lparr>device_type = ''starlink'', manufacturer = Some ''SpaceX'',
              model = Some ''Starlink Dish'', device_id = None, ip_address = Some ip,
              capabilities = [''wifi_config'', ''status'', ''reboot'', ''stow'']\<rparr>
      else None)"

definition detect_mikrotik :: "net \<Rightarrow> string \<Rightarrow> DeviceInfo option" where
  "detect_mikrotik env ip =
     (let api_port_open = check_port env ip 8728;
          winbox_port_open = check_port env ip 8291
      in if api_port_open \<or> winbox_port_open then
           (let caps = [''wifi_config'', ''status'', ''reboot''];
                caps = (if check_port env ip 80
                   then caps @ [''hotspot_users'', ''hotspot_vouchers'', ''hotspot_profiles'']
                   else caps)
            in Some \<lparr>device_type = ''mikrotik'', manufacturer = Some ''MikroTik'',
                     model = None, device_id = None, ip_address = Some ip,
                     capabilities = caps\<rparr>)
         else None)"

text \<open>\<^verbatim>\<open>devices[0]\<close>: the first element of a list or string; on anything else Python
  raises (\<open>None\<close> here).\<close>

fun index0 :: "json \<Rightarrow> json option" where
  "index0 (JArr (x # xs)) = Some x"
| "index0 (JStr (c # cs)) = Some (JStr [c])"
| "index0 _ = None"

text \<open>The validation of an \<^verbatim>\<open>Optional[str]\<close> field of \<^verbatim>\<open>DeviceInfo\<close>: a string or
  \<^verbatim>\<open>None\<close>; any other value is a validation error (\<open>None\<close> here).\<close>

fun optional_str :: "json \<Rightarrow> string option option" where
  "optional_str JNull = Some None"
| "optional_str (JStr s) = Some (Some s)"
| "optional_str _ = None"

definition acs_query :: "string \<Rightarrow> string" where
  "acs_query ip =
     ''{'' @ [CHR 0x22]
     @ ''InternetGatewayDevice.WANDevice.1.WANConnectionDevice.1.WANIPConnection.1.ExternalIPAddress''
     @ [CHR 0x22] @ '':'' @ [CHR 0x22] @ ip @ [CHR 0x22] @ ''}''"

text \<open>Every exception inside the \<^verbatim>\<open>try\<close> block (network, JSON, attribute, index,
  validation) is logged and the check returns \<^verbatim>\<open>None\<close>.\<close>

definition detect_tr069_device :: "net \<Rightarrow> string \<Rightarrow> DeviceInfo option" where
  "detect_tr069_device env ip =
     (case acs_devices env (acs_query ip) of
        Inl e \<Rightarrow> None
      | Inr (status, body) \<Rightarrow>
          if status = 200 then
            (case body of
               None \<Rightarrow> None
             | Some devices \<Rightarrow>
                 if truthy devices then
                   (case index0 devices of
                      Some (JObj device) \<Rightarrow>
                        (case dict_get device ''_deviceId'' (JObj []) of
                           JObj dev_id \<Rightarrow>
                             (case (optional_str (dict_get dev_id ''_Manufacturer'' (JStr ''Unknown'')),
                                    optional_str (dict_get dev_id ''_ProductClass'' (JStr ''Unknown'')),
                                    optional_str (dict_get device ''_id'' JNull)) of
                                (Some m, Some p, Some i) \<Rightarrow>
                                  Some \<lparr>device_type = ''tr069'', manufacturer = m, model = p,
                                        device_id = i, ip_address = Some ip,
                                        capabilities = [''wifi_config'', ''status'', ''reboot'',
                                                        ''firmware_update'']\<rparr>
                              | _ \<Rightarrow> None)
                         | _ \<Rightarrow> None)
                    | _ \<Rightarrow> None)
                 else None)
          else None)"

definition detect_by_http_fingerprint :: "net \<Rightarrow> string \<Rightarrow> DeviceInfo option" where
  "detect_by_http_fingerprint env ip =
     (case http_get env (''http://'' @ ip @ ''/'') of
        Inl e \<Rightarrow> None
      | Inr response \<Rightarrow>
          (let content = lower (text_body response);
               server = lower (dict_get (headers response) ''server'' '''')
           in if py_in ''tp-link'' content \<or> py_in ''tp-link'' server then
                Some \<lparr>device_type = ''tr069'', manufacturer = Some ''TP-Link'', model = None,
                      device_id = None, ip_address = Some ip,
                      capabilities = [''wifi_config'', ''status'', ''reboot'']\<rparr>
              else if py_in ''d-link'' content \<or> py_in ''d-link'' server then
                Some \<lparr>device_type = ''tr069'', manufacturer = Some ''D-Link'', model = None,
                      device_id = None, ip_address = Some ip,
                      capabilities = [''wifi_config'', ''status'', ''reboot'']\<rparr>
              else if py_in ''asus'' content \<or> py_in ''asuswrt'' content then
                Some \<lparr>device_type = ''asus'', manufacturer = Some ''ASUS'', model = None,
                      device_id = None, ip_address = Some ip,
                      capabilities = [''wifi_config'', ''status'']\<rparr>
              else if py_in ''ubnt'' content \<or> py_in ''ubiquiti'' content
                      \<or> py_in ''unifi'' content then
                Some \<lparr>device_type = ''ubiquiti'', manufacturer = Some ''Ubiquiti'', model = None,
                      device_id = None, ip_address = Some ip,
                      capabilities = [''status'']\<rparr>
              else None))"

text \<open>
  The route \<^verbatim>\<open>POST /detect\<close>, for a request whose token has been verified.
  \<^verbatim>\<open>asyncio.gather(..., return_exceptions=True)\<close> hands back one entry per check, in
  the order the checks were passed: the value a check returned, or the exception it
  raised, as a value.
\<close>

datatype check_result = Raised failure | Returned "DeviceInfo option"

definition gather :: "net \<Rightarrow> string \<Rightarrow> check_result list" where
  "gather env ip =
     [Returned (detect_starlink env ip), Returned (detect_mikrotik env ip),
      Returned (detect_tr069_device env ip), Returned (detect_by_http_fingerprint env ip)]"

text \<open>The loop \<^verbatim>\<open>for result in results: if isinstance(result, DeviceInfo): return result\<close>
  and the answer after it.\<close>

fun first_detection :: "check_result list \<Rightarrow> string \<Rightarrow> DeviceInfo" where
  "first_detection [] ip =
     \<lparr>device_type = ''unknown'', manufacturer = None, model = None, device_id = None,
      ip_address = Some ip, capabilities = []\<rparr>"
| "first_detection (Returned (Some result) # results) ip = result"
| "first_detection (result # results) ip = first_detection results ip"

definition detect_device :: "net \<Rightarrow> string \<Rightarrow> DeviceInfo" where
  "detect_device env ip = first_detection (gather env ip) ip"

section \<open>Session tokens (app/api/auth.py)\<close>

text \<open>The process-wide settings the token functions read (app/core/config.py).\<close>

record settings =
  SECRET_KEY :: string
  JWT_ALGORITHM :: string
  JWT_EXPIRATION_HOURS :: int

text \<open>
  PyJWT is a library outside the repository: its two functions are parameters of the
  model. \<open>jwt_encode payload key algorithm\<close> is the token string;
  \<open>jwt_decode token key algorithms clock\<close> is the payload, or the exception raised
  (\<open>clock\<close> is the time the library reads, in seconds). \<^verbatim>\<open>ExpiredSignatureError\<close> is
  a subclass of \<^verbatim>\<open>InvalidTokenError\<close>; \<open>InvalidTokenError name\<close> stands for every other
  one (\<^verbatim>\<open>DecodeError\<close>, \<^verbatim>\<open>InvalidSignatureError\<close>, ...).
\<close>

datatype jwt_exception = ExpiredSignatureError | InvalidTokenError string

record jwt_library =
  jwt_encode :: "dict \<Rightarrow> string \<Rightarrow> string \<Rightarrow> string"
  jwt_decode :: "string \<Rightarrow> string \<Rightarrow> string list \<Rightarrow> int \<Rightarrow> jwt_exception + dict"

record TokenPayload =
  customer_id :: int
  uisp_customer_id :: string
  email :: string
  exp :: int

text \<open>
  \<^verbatim>\<open>TokenPayload(**payload)\<close>: the four declared fields are required, keys that are
  not declared are ignored. An integer or a string of the declared type is taken as it
  is; a value of another JSON type is a validation error (the conversions pydantic
  would attempt on it are not part of the model). \<open>exp\<close> is the expiry in seconds.
\<close>

definition TokenPayload_of :: "dict \<Rightarrow> TokenPayload option" where
  "TokenPayload_of payload =
     (case (map_of payload ''customer_id'', map_of payload ''uisp_customer_id'',
            map_of payload ''email'', map_of payload ''exp'') of
        (Some (JInt c), Some (JStr u), Some (JStr e), Some (JInt x)) \<Rightarrow>
          Some \<lparr>customer_id = c, uisp_customer_id = u, email = e, exp = x\<rparr>
      | _ \<Rightarrow> None)"

text \<open>\<^verbatim>\<open>token.model_dump()\<close>\<close>

definition model_dump :: "TokenPayload \<Rightarrow> dict" where
  "model_dump t =
     [(''customer_id'', JInt (customer_id t)), (''uisp_customer_id'', JStr (uisp_customer_id t)),
      (''email'', JStr (email t)), (''exp'', JInt (exp t))]"

text \<open>\<open>utcnow\<close> is \<^verbatim>\<open>datetime.utcnow()\<close> in seconds; \<^verbatim>\<open>to_encode.update({"exp": expire})\<close>
  sets the key, replacing a value the dict had for it.\<close>

definition create_access_token :: "jwt_library \<Rightarrow> settings \<Rightarrow> int \<Rightarrow> dict \<Rightarrow> string" where
  "create_access_token jwt cfg utcnow data =
     (let to_encode = data;
          expire = utcnow + 3600 * JWT_EXPIRATION_HOURS cfg;
          to_encode = AList.update ''exp'' (JInt expire) to_encode
      in jwt_encode jwt to_encode (SECRET_KEY cfg) (JWT_ALGORITHM cfg))"

text \<open>The body of \<^verbatim>\<open>verify_token\<close>. The handler of \<^verbatim>\<open>ExpiredSignatureError\<close> stands
  before the handler of its superclass; the validation error of \<^verbatim>\<open>TokenPayload\<close> is
  caught by neither.\<close>

definition verify_token :: "jwt_library \<Rightarrow> settings \<Rightarrow> int \<Rightarrow> string \<Rightarrow> failure + TokenPayload" where
  "verify_token jwt cfg clock authorization =
     (let token = str_replace authorization ''Bearer '' ''''
      in case jwt_decode jwt token (SECRET_KEY cfg) [JWT_ALGORITHM cfg] clock of
           Inl ExpiredSignatureError \<Rightarrow> Inl (HTTPException 401 ''Token has expired'')
         | Inl (InvalidTokenError e) \<Rightarrow> Inl (HTTPException 401 ''Invalid token'')
         | Inr payload \<Rightarrow>
             (case TokenPayload_of payload of
                None \<Rightarrow> Inl (Error ''ValidationError'')
              | Some t \<Rightarrow> Inr t))"

text \<open>
  \<^verbatim>\<open>authorization: str = Header(...)\<close> declares the header as required: for a request
  without it FastAPI answers with its validation error and never calls the function.
\<close>

definition verify_token_dependency ::
  "jwt_library \<Rightarrow> settings \<Rightarrow> int \<Rightarrow> string option \<Rightarrow> failure + TokenPayload" where
  "verify_token_dependency jwt cfg clock header =
     (case header of
        None \<Rightarrow> Inl (RequestValidationError ''authorization'')
      | Some authorization \<Rightarrow> verify_token jwt cfg clock authorization)"

text \<open>The status of the response a failure becomes: an \<^verbatim>\<open>HTTPException\<close> carries its
  own, FastAPI answers a validation error with 422, and the handler of app/main.py turns
  every other exception into 500.\<close>

fun status_of :: "failure \<Rightarrow> nat" where
  "status_of (HTTPException status detail) = status"
| "status_of (RequestValidationError field) = 422"
| "status_of (Error name) = 500"

section \<open>Hotspot vouchers (app/api/mikrotik.py, app/api/hotspot.py)\<close>

record VoucherRequest =
  count :: int
  profile :: string
  code_prefix :: string
  validity :: string
  code_length :: int

text \<open>
  The router behind the credentials of a request. \<open>connect_error\<close> is the exception
  of \<^verbatim>\<open>RouterOsApiPool(...).get_api()\<close>, if it raises; \<open>add_error i\<close> is the
  exception with which the router answers the \<open>i\<close>-th \<^verbatim>\<open>users.add\<close> of the
  session (counted from 0), \<open>None\<close> when it accepts the user; \<open>hotspot_user\<close> is the
  table \<^verbatim>\<open>/ip/hotspot/user\<close>, each entry the parameters it was added with.
\<close>

record router =
  connect_error :: "string option"
  add_error :: "nat \<Rightarrow> string option"
  hotspot_user :: "(string \<times> string) list list"

text \<open>
  \<^verbatim>\<open>random.choices(population, k=k)\<close>: \<open>k\<close> draws with replacement. The generator
  is the stream \<open>rand\<close> of its draws, read from position \<open>pos\<close>; a draw selects the
  element at its index modulo the size of the population.
\<close>

definition random_choices :: "(nat \<Rightarrow> nat) \<Rightarrow> nat \<Rightarrow> 'a list \<Rightarrow> int \<Rightarrow> 'a list" where
  "random_choices rand pos population k =
     map (\<lambda>j. population ! (rand (pos + j) mod length population)) [0..<nat k]"

text \<open>
  The loop \<^verbatim>\<open>for i in range(request.count)\<close> of \<^verbatim>\<open>_generate\<close>, with \<open>n\<close> rounds
  left at round \<open>i\<close>: the state is the router's table and the list \<open>vouchers\<close>. An
  exception of \<^verbatim>\<open>users.add\<close> is not caught: it ends the loop, and the list built so
  far is lost with the frame.
\<close>

fun generate_loop ::
  "router \<Rightarrow> (nat \<Rightarrow> nat) \<Rightarrow> VoucherRequest \<Rightarrow> nat \<Rightarrow> nat \<Rightarrow>
   (string \<times> string) list list \<Rightarrow> (string \<times> string) list list \<Rightarrow>
   (failure + (string \<times> string) list list) \<times> (string \<times> string) list list" where
  "generate_loop r rand request 0 i users vouchers = (Inr vouchers, users)"
| "generate_loop r rand request (Suc n) i users vouchers =
     (let code = code_prefix request
                 @ random_choices rand (i * nat (code_length request))
                     (ascii_uppercase @ digits) (code_length request)
      in case add_error r i of
           Some e \<Rightarrow> (Inl (Error e), users)
         | None \<Rightarrow>
             generate_loop r rand request n (Suc i)
               (users @ [[(''name'', code), (''password'', code), (''profile'', profile request),
                          (''limit-uptime'', validity request),
                          (''comment'', ''Voucher generated automatically'')]])
               (vouchers @ [[(''code'', code), (''profile'', profile request),
                             (''validity'', validity request)]]))"

text \<open>\<^verbatim>\<open>MikroTikService.generate_vouchers\<close>: the answer to the caller and the router's
  table afterwards. A connection that fails is the 503 of \<^verbatim>\<open>_connect\<close>.\<close>

definition generate_vouchers ::
  "router \<Rightarrow> (nat \<Rightarrow> nat) \<Rightarrow> VoucherRequest \<Rightarrow>
   (failure + (string \<times> string) list list) \<times> (string \<times> string) list list" where
  "generate_vouchers r rand request =
     (case connect_error r of
        Some e \<Rightarrow> (Inl (HTTPException 503 (''Cannot connect to MikroTik: '' @ e)), hotspot_user r)
      | None \<Rightarrow> generate_loop r rand request (nat (count request)) 0 (hotspot_user r) [])"

text \<open>The route \<^verbatim>\<open>POST /hotspot/vouchers\<close> of app/api/mikrotik.py: the vouchers and
  their number.\<close>

definition generate_vouchers_route ::
  "router \<Rightarrow> (nat \<Rightarrow> nat) \<Rightarrow> VoucherRequest \<Rightarrow>
   (failure + ((string \<times> string) list list \<times> nat)) \<times> (string \<times> string) list list" where
  "generate_vouchers_route r rand request =
     (case generate_vouchers r rand request of
        (Inl e, users) \<Rightarrow> (Inl e, users)
      | (Inr vouchers, users) \<Rightarrow> (Inr (vouchers, length vouchers), users))"

definition VOUCHER_PRESETS :: "(string \<times> (string \<times> string) list) list" where
  "VOUCHER_PRESETS =
     [(''1hour'', [(''profile'', ''1hour''), (''validity'', ''1h''), (''rate'', ''5M/5M'')]),
      (''1day'', [(''profile'', ''1day''), (''validity'', ''1d''), (''rate'', ''10M/10M'')]),
      (''1week'', [(''profile'', ''1week''), (''validity'', ''7d''), (''rate'', ''10M/10M'')]),
      (''1month'', [(''profile'', ''1month''), (''validity'', ''30d''), (''rate'', ''20M/20M'')])]"

record quick_vouchers =
  vouchers :: "(string \<times> string) list list"
  preset :: string
  preset_details :: "(string \<times> string) list"

text \<open>The route \<^verbatim>\<open>POST /quick-vouchers\<close> of app/api/hotspot.py. The request built for
  the service leaves \<^verbatim>\<open>code_length\<close> at its default, 8.\<close>

definition generate_quick_vouchers ::
  "router \<Rightarrow> (nat \<Rightarrow> nat) \<Rightarrow> string \<Rightarrow> int \<Rightarrow>
   (failure + quick_vouchers) \<times> (string \<times> string) list list" where
  "generate_quick_vouchers r rand request_preset request_count =
     (case map_of VOUCHER_PRESETS request_preset of
        None \<Rightarrow>
          (Inl (HTTPException 400
                 (''Invalid preset. Available: [''
                  @ join '', '' (map (\<lambda>k. [CHR 0x27] @ k @ [CHR 0x27]) (map fst VOUCHER_PRESETS))
                  @ '']'')),
           hotspot_user r)
      | Some p \<Rightarrow>
          (let voucher_request =
                 \<lparr>count = request_count, profile = dict_get p ''profile'' '''',
                  code_prefix = take 2 (upper request_preset),
                  validity = dict_get p ''validity'' '''', code_length = 8\<rparr>
           in case generate_vouchers r rand voucher_request of
                (Inl e, users) \<Rightarrow> (Inl e, users)
              | (Inr vs, users) \<Rightarrow>
                  (Inr \<lparr>vouchers = vs, preset = request_preset, preset_details = p\<rparr>, users)))"

section \<open>Parameter reads through the auto-configuration server (app/api/tr069.py)\<close>

text \<open>
  \<^verbatim>\<open>s.split(sep)\<close> for a separator of one character: the pieces between the
  separators, at least one piece; \<open>piece\<close> is the piece being read.
  \<^verbatim>\<open>param.split('.')[-1]\<close> is the last piece.
\<close>

fun split_from :: "string \<Rightarrow> char \<Rightarrow> string \<Rightarrow> string list" where
  "split_from [] sep piece = [piece]"
| "split_from (c # cs) sep piece =
     (if c = sep then piece # split_from cs sep [] else split_from cs sep (piece @ [c]))"

definition split :: "string \<Rightarrow> char \<Rightarrow> string list" where
  "split s sep = split_from s sep []"

record acs_response =
  acs_status :: nat
  acs_text :: string
  acs_json :: "json option"

text \<open>
  \<^verbatim>\<open>TR069Service._request\<close>. \<open>send method url\<close> is the HTTP exchange with the server:
  an exception of the client, or the response with its status, its text and the text
  parsed as JSON (\<open>None\<close> when it is not JSON, which makes \<^verbatim>\<open>response.json()\<close> raise).
\<close>

definition tr069_request ::
  "(string \<Rightarrow> string \<Rightarrow> failure + acs_response) \<Rightarrow> string \<Rightarrow> string \<Rightarrow> string \<Rightarrow>
   failure + json option" where
  "tr069_request send base_url method path =
     (case send method (base_url @ path) of
        Inl e \<Rightarrow> Inl e
      | Inr response \<Rightarrow>
          if acs_status response \<ge> 400 then
            Inl (HTTPException (acs_status response) (''GenieACS error: '' @ acs_text response))
          else if acs_text response \<noteq> [] then
            (case acs_json response of
               None \<Rightarrow> Inl (Error ''JSONDecodeError'')
             | Some j \<Rightarrow> Inr (Some j))
          else Inr None)"

text \<open>The loop of \<^verbatim>\<open>get_device_parameters\<close>, with the dict \<open>result\<close> as its state.
  \<^verbatim>\<open>result[key] = data\<close> replaces the value of a key the dict has and appends a new key.
  A read that raises is logged and skipped; so is a read whose data is falsy.\<close>

fun get_device_parameters_loop ::
  "(string \<Rightarrow> string \<Rightarrow> failure + acs_response) \<Rightarrow> string \<Rightarrow> string \<Rightarrow> string list \<Rightarrow>
   dict \<Rightarrow> dict" where
  "get_device_parameters_loop send base_url device [] result = result"
| "get_device_parameters_loop send base_url device (param # parameters) result =
     (case tr069_request send base_url ''GET'' (''/devices/'' @ device @ ''/parameters/'' @ param) of
        Inl e \<Rightarrow> get_device_parameters_loop send base_url device parameters result
      | Inr None \<Rightarrow> get_device_parameters_loop send base_url device parameters result
      | Inr (Some data) \<Rightarrow>
          if truthy data then
            get_device_parameters_loop send base_url device parameters
              (AList.update (last (split param (CHR ''.''))) data result)
          else get_device_parameters_loop send base_url device parameters result)"

definition get_device_parameters ::
  "(string \<Rightarrow> string \<Rightarrow> failure + acs_response) \<Rightarrow> string \<Rightarrow> string \<Rightarrow> string list \<Rightarrow> dict" where
  "get_device_parameters send base_url device parameters =
     get_device_parameters_loop send base_url device parameters []"

section \<open>Login (app/api/auth.py, app/core/database.py)\<close>

text \<open>
  \<^verbatim>\<open>str(x)\<close> and the \<^verbatim>\<open>{x}\<close> of an f-string, for a JSON value: a string is itself,
  an integer its decimal digits, \<^verbatim>\<open>None\<close>, \<^verbatim>\<open>True\<close> and \<^verbatim>\<open>False\<close> their names. Inside a
  list or a dict Python writes a string as its \<^verbatim>\<open>repr\<close>; \<open>py_repr\<close> writes it between
  single quotes, which is the \<^verbatim>\<open>repr\<close> of a string without quotes, backslashes and
  control characters.
\<close>

fun decimal :: "nat \<Rightarrow> string" where
  "decimal n = (if n < 10 then [digits ! n] else decimal (n div 10) @ [digits ! (n mod 10)])"

declare decimal.simps [simp del]

fun py_repr :: "json \<Rightarrow> string" where
  "py_repr JNull = ''None''"
| "py_repr (JBool b) = (if b then ''True'' else ''False'')"
| "py_repr (JInt i) = (if i < 0 then ''-'' @ decimal (nat (- i)) else decimal (nat i))"
| "py_repr (JStr s) = [CHR 0x27] @ s @ [CHR 0x27]"
| "py_repr (JArr xs) = ''['' @ join '', '' (map py_repr xs) @ '']''"
| "py_repr (JObj kvs) =
     ''{'' @ join '', '' (map (\<lambda>(k, v). [CHR 0x27] @ k @ [CHR 0x27] @ '': '' @ py_repr v) kvs) @ ''}''"

definition py_str :: "json \<Rightarrow> string" where
  "py_str x = (case x of JStr s \<Rightarrow> s | _ \<Rightarrow> py_repr x)"

text \<open>\<^verbatim>\<open>s.strip()\<close>: the ASCII whitespace at both ends is removed.\<close>

definition whitespace :: "char list" where
  "whitespace = [CHR 0x20, CHR 0x09, CHR 0x0A, CHR 0x0B, CHR 0x0C, CHR 0x0D,
                 CHR 0x1C, CHR 0x1D, CHR 0x1E, CHR 0x1F]"

definition strip :: "string \<Rightarrow> string" where
  "strip s = rev (dropWhile (\<lambda>c. c \<in> set whitespace)
                   (rev (dropWhile (\<lambda>c. c \<in> set whitespace) s)))"

text \<open>
  The billing platform as \<^verbatim>\<open>UISPService.authenticate\<close> talks to it. Each request is
  an exception of the HTTP client, or a status with what the code reads of the
  response: the \<^verbatim>\<open>x-auth-token\<close> header of the login, the body as JSON of the others
  (\<open>None\<close> when the body is not JSON).
\<close>

record uisp =
  post_login :: "string \<Rightarrow> string \<Rightarrow> failure + (nat \<times> string option)"
  get_user :: "string option \<Rightarrow> failure + (nat \<times> json option)"
  get_client :: "string option \<Rightarrow> json \<Rightarrow> failure + (nat \<times> json option)"
  get_client_services :: "string option \<Rightarrow> json \<Rightarrow> failure + (nat \<times> json option)"

record auth_result =
  token :: "string option"
  user :: dict
  customer :: json
  services :: json

definition get_customer :: "uisp \<Rightarrow> string option \<Rightarrow> json \<Rightarrow> failure + json" where
  "get_customer api tok client_id =
     (case get_client api tok client_id of
        Inl e \<Rightarrow> Inl e
      | Inr (status, body) \<Rightarrow>
          if status = 200 then
            (case body of None \<Rightarrow> Inl (Error ''JSONDecodeError'') | Some j \<Rightarrow> Inr j)
          else Inr (JObj []))"

definition get_customer_services :: "uisp \<Rightarrow> string option \<Rightarrow> json \<Rightarrow> failure + json" where
  "get_customer_services api tok client_id =
     (case get_client_services api tok client_id of
        Inl e \<Rightarrow> Inl e
      | Inr (status, body) \<Rightarrow>
          if status = 200 then
            (case body of None \<Rightarrow> Inl (Error ''JSONDecodeError'') | Some j \<Rightarrow> Inr j)
          else Inr (JArr []))"

definition authenticate :: "uisp \<Rightarrow> string \<Rightarrow> string \<Rightarrow> failure + auth_result" where
  "authenticate api username password =
     (case post_login api username password of
        Inl e \<Rightarrow> Inl e
      | Inr (status, tok) \<Rightarrow>
          if status = 200 then
            (case get_user api tok of
               Inl e \<Rightarrow> Inl e
             | Inr (user_status, user_body) \<Rightarrow>
                 if user_status = 200 then
                   (case user_body of
                      None \<Rightarrow> Inl (Error ''JSONDecodeError'')
                    | Some (JObj user_data) \<Rightarrow>
                        (let client_id = dict_get user_data ''clientId'' JNull
                         in if truthy client_id then
                              (case get_customer api tok client_id of
                                 Inl e \<Rightarrow> Inl e
                               | Inr c \<Rightarrow>
                                   (case get_customer_services api tok client_id of
                                      Inl e \<Rightarrow> Inl e
                                    | Inr s \<Rightarrow>
                                        Inr \<lparr>token = tok, user = user_data, customer = c,
                                             services = s\<rparr>))
                            else Inl (HTTPException 401 ''Invalid UISP credentials''))
                    | Some other \<Rightarrow> Inl (Error ''AttributeError''))
                 else Inl (HTTPException 401 ''Invalid UISP credentials''))
          else Inl (HTTPException 401 ''Invalid UISP credentials''))"

text \<open>
  The table \<^verbatim>\<open>customers\<close>. The columns \<^verbatim>\<open>created_at\<close> and \<^verbatim>\<open>updated_at\<close>, which the
  database server fills, are left out.
\<close>

record Customer =
  row_id :: int
  row_uisp_customer_id :: string
  row_email :: string
  row_name :: string
  row_phone :: "string option"
  row_is_active :: bool

text \<open>
  \<^verbatim>\<open>db.add(customer); await db.commit(); await db.refresh(customer)\<close>: the insertion
  of one row. \<open>new_id\<close> is the primary key the database draws for it. The columns are
  as declared: \<^verbatim>\<open>id\<close> the primary key; \<^verbatim>\<open>uisp_customer_id\<close> and \<^verbatim>\<open>email\<close> of at most
  255 characters, unique and not null; \<^verbatim>\<open>name\<close> of at most 255 and \<^verbatim>\<open>phone\<close> of at most
  50 characters, \<^verbatim>\<open>phone\<close> may be null. A value the columns do not take is an
  exception of the commit (a \<^verbatim>\<open>DBAPIError\<close>), and the table stays as it was.
\<close>

definition insert_customer ::
  "Customer list \<Rightarrow> int \<Rightarrow> string \<Rightarrow> json \<Rightarrow> string \<Rightarrow> json \<Rightarrow> failure + (Customer \<times> Customer list)" where
  "insert_customer db new_id uid mail nm phone =
     (case (mail, optional_str phone) of
        (JStr e, Some p) \<Rightarrow>
          if length uid > 255 \<or> length e > 255 \<or> length nm > 255
             \<or> (case p of None \<Rightarrow> False | Some number \<Rightarrow> length number > 50)
             \<or> new_id \<in> set (map row_id db)
             \<or> uid \<in> set (map row_uisp_customer_id db)
             \<or> e \<in> set (map row_email db) then
            Inl (Error ''DBAPIError'')
          else
            (let row = \<lparr>row_id = new_id, row_uisp_customer_id = uid, row_email = e,
                        row_name = nm, row_phone = p, row_is_active = True\<rparr>
             in Inr (row, db @ [row]))
      | other \<Rightarrow> Inl (Error ''DBAPIError''))"

text \<open>\<^verbatim>\<open>result.scalar_one_or_none()\<close> of the select by \<^verbatim>\<open>uisp_customer_id\<close>: the row,
  \<^verbatim>\<open>None\<close>, or an exception when several rows match.\<close>

definition scalar_one_or_none :: "Customer list \<Rightarrow> string \<Rightarrow> failure + Customer option" where
  "scalar_one_or_none db uid =
     (case filter (\<lambda>r. row_uisp_customer_id r = uid) db of
        [] \<Rightarrow> Inr None
      | [r] \<Rightarrow> Inr (Some r)
      | r # r' # rs \<Rightarrow> Inl (Error ''MultipleResultsFound''))"

record LoginResponse =
  access_token :: string
  token_type :: string
  response_customer :: dict
  response_services :: "json list"

text \<open>The payload \<^verbatim>\<open>login\<close> hands to \<^verbatim>\<open>create_access_token\<close>.\<close>

definition login_claims :: "Customer \<Rightarrow> string \<Rightarrow> json \<Rightarrow> string option \<Rightarrow> dict" where
  "login_claims row uid mail tok =
     [(''customer_id'', JInt (row_id row)), (''uisp_customer_id'', JStr uid), (''email'', mail),
      (''uisp_token'', (case tok of None \<Rightarrow> JNull | Some t \<Rightarrow> JStr t))]"

text \<open>
  The \<^verbatim>\<open>try\<close> block of \<^verbatim>\<open>login\<close>, with the table before and after. An exception
  leaves the block at the statement that raises it, after the effects of the statements
  before it.
\<close>

definition login_try ::
  "jwt_library \<Rightarrow> settings \<Rightarrow> int \<Rightarrow> uisp \<Rightarrow> int \<Rightarrow> string \<Rightarrow> string \<Rightarrow> Customer list \<Rightarrow>
   (failure + LoginResponse) \<times> Customer list" where
  "login_try jwt cfg utcnow api new_id username password db =
     (case authenticate api username password of
        Inl e \<Rightarrow> (Inl e, db)
      | Inr auth \<Rightarrow>
          (case customer auth of
             JObj c \<Rightarrow>
               (let uid = py_str (dict_get c ''id'' (JStr ''''));
                    mail = dict_get (user auth) ''email'' (JStr username)
                in case scalar_one_or_none db uid of
                     Inl e \<Rightarrow> (Inl e, db)
                   | Inr found \<Rightarrow>
                       (case (case found of
                                Some row \<Rightarrow> Inr (row, db)
                              | None \<Rightarrow>
                                  insert_customer db new_id uid mail
                                    (strip (py_str (dict_get c ''firstName'' (JStr ''''))
                                            @ '' '' @ py_str (dict_get c ''lastName'' (JStr ''''))))
                                    (dict_get c ''phone'' (JStr ''''))) of
                          Inl e \<Rightarrow> (Inl e, db)
                        | Inr (row, db') \<Rightarrow>
                            (let tk = create_access_token jwt cfg utcnow
                                        (login_claims row uid mail (token auth))
                             in case services auth of
                                  JArr s \<Rightarrow>
                                    (Inr \<lparr>access_token = tk, token_type = ''bearer'',
                                          response_customer = c, response_services = s\<rparr>, db')
                                | other \<Rightarrow> (Inl (Error ''ValidationError''), db'))))
           | other \<Rightarrow> (Inl (Error ''AttributeError''), db)))"

text \<open>\<^verbatim>\<open>login\<close>: an \<^verbatim>\<open>HTTPException\<close> of the block is raised again, any other exception
  becomes the 401 \<^verbatim>\<open>Authentication failed\<close>.\<close>

definition login ::
  "jwt_library \<Rightarrow> settings \<Rightarrow> int \<Rightarrow> uisp \<Rightarrow> int \<Rightarrow> string \<Rightarrow> string \<Rightarrow> Customer list \<Rightarrow>
   (failure + LoginResponse) \<times> Customer list" where
  "login jwt cfg utcnow api new_id username password db =
     (case login_try jwt cfg utcnow api new_id username password db of
        (Inl (HTTPException status detail), db') \<Rightarrow> (Inl (HTTPException status detail), db')
      | (Inl other, db') \<Rightarrow> (Inl (HTTPException 401 ''Authentication failed''), db')
      | (Inr response, db') \<Rightarrow> (Inr response, db'))"

section \<open>Scenarios and notions for the statements\<close>

text \<open>Concrete networks, routers, libraries and tables on which the theorems below are
  run, and the notions the statements use: the data a parameter read stores
  (\<open>stored\<close>), a credential pair accepted by the billing platform
  (\<open>accepted_as\<close>) and a row the table takes (\<open>insertable\<close>).\<close>

text \<open>A gateway on which every check finds something: all ports accept, the registry
  lists a device, and the web page names a vendor.\<close>

definition busy_net :: net where
  "busy_net =
     \<lparr>connect_ex = (\<lambda>host port. Inr 0),
      acs_devices = (\<lambda>query. Inr (200, Some (JArr [JObj [(''_id'', JStr ''00259E-HG8245-485754'')]]))),
      http_get = (\<lambda>url. Inr \<lparr>status_code = 200, text_body = ''Welcome to TP-LINK'',
                                headers = [(''server'', ''httpd'')]\<rparr>)\<rparr>"

text \<open>A gateway that refuses port 9200 (error 111) and accepts every other port; the
  registry and the web page are as before.\<close>

definition router_net :: net where
  "router_net = busy_net\<lparr>connect_ex := (\<lambda>host port. if port = 9200 then Inr 111 else Inr 0)\<rparr>"

text \<open>A gateway on which every call raises.\<close>

definition dead_net :: net where
  "dead_net =
     \<lparr>connect_ex = (\<lambda>host port. Inl (Error ''OSError'')),
      acs_devices = (\<lambda>query. Inl (Error ''ConnectError'')),
      http_get = (\<lambda>url. Inl (Error ''ConnectTimeout''))\<rparr>"

text \<open>
  A stand-in for the token library that knows the tokens of a table, each with the key
  and algorithm that signed it and its payload. Decoding checks, in the library's order,
  that the token is known, that its algorithm is allowed, that the key is the signing
  key, and that an \<open>exp\<close> claim lies in the future.
\<close>

definition table_jwt :: "(string \<times> string \<times> string \<times> dict) list \<Rightarrow> jwt_library" where
  "table_jwt issued =
     \<lparr>jwt_encode = (\<lambda>payload key algorithm.
        case find (\<lambda>(t, k, a, p). k = key \<and> a = algorithm \<and> p = payload) issued of
          None \<Rightarrow> []
        | Some (t, k, a, p) \<Rightarrow> t),
      jwt_decode = (\<lambda>tok key algorithms clock.
        case map_of issued tok of
          None \<Rightarrow> Inl (InvalidTokenError ''DecodeError'')
        | Some (k, a, p) \<Rightarrow>
            if a \<notin> set algorithms then Inl (InvalidTokenError ''InvalidAlgorithmError'')
            else if k \<noteq> key then Inl (InvalidTokenError ''InvalidSignatureError'')
            else (case map_of p ''exp'' of
                    None \<Rightarrow> Inr p
                  | Some (JInt e) \<Rightarrow> if e \<le> clock then Inl ExpiredSignatureError else Inr p
                  | Some other \<Rightarrow> Inl (InvalidTokenError ''DecodeError'')))\<rparr>"

definition demo_settings :: settings where
  "demo_settings = \<lparr>SECRET_KEY = ''s3cret'', JWT_ALGORITHM = ''HS256'', JWT_EXPIRATION_HOURS = 24\<rparr>"

text \<open>The payload \<^verbatim>\<open>login\<close> passes to \<^verbatim>\<open>create_access_token\<close> for subscriber 7.\<close>

definition login_data :: dict where
  "login_data =
     [(''customer_id'', JInt 7), (''uisp_customer_id'', JStr ''42''),
      (''email'', JStr ''ann@example.org''), (''uisp_token'', JStr ''x-auth-1'')]"

text \<open>Five tokens: the one minted from \<open>login_data\<close> at time 1000 (it expires at
  87400), the one minted from it at time 1500, one minted at time 1500 for the row with
  the empty external id, one that expired at time 500, and one signed with another key.\<close>

definition demo_jwt :: jwt_library where
  "demo_jwt = table_jwt
     [(''hdr.login.sig'', ''s3cret'', ''HS256'',
         [(''customer_id'', JInt 7), (''uisp_customer_id'', JStr ''42''),
          (''email'', JStr ''ann@example.org''), (''uisp_token'', JStr ''x-auth-1''),
          (''exp'', JInt 87400)]),
      (''hdr.again.sig'', ''s3cret'', ''HS256'',
         [(''customer_id'', JInt 7), (''uisp_customer_id'', JStr ''42''),
          (''email'', JStr ''ann@example.org''), (''uisp_token'', JStr ''x-auth-1''),
          (''exp'', JInt 87900)]),
      (''hdr.dan.sig'', ''s3cret'', ''HS256'',
         [(''customer_id'', JInt 9), (''uisp_customer_id'', JStr ''''),
          (''email'', JStr ''dan@example.org''), (''uisp_token'', JStr ''x-auth-4''),
          (''exp'', JInt 87900)]),
      (''hdr.old.sig'', ''s3cret'', ''HS256'',
         [(''customer_id'', JInt 7), (''uisp_customer_id'', JStr ''42''),
          (''email'', JStr ''ann@example.org''), (''exp'', JInt 500)]),
      (''hdr.forged.sig'', ''not-the-key'', ''HS256'',
         [(''customer_id'', JInt 1), (''uisp_customer_id'', JStr ''1''),
          (''email'', JStr ''eve@example.org''), (''exp'', JInt 87400)])]"

text \<open>A router that is reached and accepts every user, and one that rejects the \<open>k\<close>-th
  \<^verbatim>\<open>add\<close> of the session with the message \<open>msg\<close>; both start with an empty table.\<close>

definition open_router :: router where
  "open_router = \<lparr>connect_error = None, add_error = (\<lambda>i. None), hotspot_user = []\<rparr>"

definition rejecting_router :: "nat \<Rightarrow> string \<Rightarrow> router" where
  "rejecting_router k msg =
     \<lparr>connect_error = None, add_error = (\<lambda>i. if i = k then Some msg else None),
      hotspot_user = []\<rparr>"

text \<open>A generator whose draws repeat after eight, and one whose draws do not repeat
  within the first sixteen.\<close>

definition repeating_rand :: "nat \<Rightarrow> nat" where
  "repeating_rand n = n mod 8"

definition counting_rand :: "nat \<Rightarrow> nat" where
  "counting_rand n = n"

definition three_day_vouchers :: VoucherRequest where
  "three_day_vouchers =
     \<lparr>count = 3, profile = ''1day'', code_prefix = ''1D'', validity = ''1d'', code_length = 8\<rparr>"

text \<open>
  What one round of the loop of \<^verbatim>\<open>get_device_parameters\<close> stores for \<open>param\<close>: the
  data of a read that raised nothing and returned a value Python counts as true. Such
  a read is called successful below.
\<close>

definition stored ::
  "(string \<Rightarrow> string \<Rightarrow> failure + acs_response) \<Rightarrow> string \<Rightarrow> string \<Rightarrow> string \<Rightarrow> json option" where
  "stored send base_url device param =
     (case tr069_request send base_url ''GET'' (''/devices/'' @ device @ ''/parameters/'' @ param) of
        Inl e \<Rightarrow> None
      | Inr None \<Rightarrow> None
      | Inr (Some data) \<Rightarrow> if truthy data then Some data else None)"

text \<open>A server that knows two parameters of one device and answers 404 to anything
  else.\<close>

definition demo_acs :: "string \<Rightarrow> string \<Rightarrow> failure + acs_response" where
  "demo_acs method url =
     (if url = ''http://acs:7557/devices/cpe1/parameters/Device.WiFi.SSID.1.Enable'' then
        Inr \<lparr>acs_status = 200, acs_text = ''1'', acs_json = Some (JInt 1)\<rparr>
      else if url = ''http://acs:7557/devices/cpe1/parameters/Device.WiFi.Radio.1.Enable'' then
        Inr \<lparr>acs_status = 200, acs_text = ''2'', acs_json = Some (JInt 2)\<rparr>
      else Inr \<lparr>acs_status = 404, acs_text = ''Not found'', acs_json = None\<rparr>)"

text \<open>A server on which the first of three switches of one device is on and the other
  two are off: it answers every read with status 200 and the JSON value.\<close>

definition switches_acs :: "string \<Rightarrow> string \<Rightarrow> failure + acs_response" where
  "switches_acs method url =
     (if url = ''http://acs:7557/devices/cpe1/parameters/Device.WiFi.SSID.1.Enable'' then
        Inr \<lparr>acs_status = 200, acs_text = ''true'', acs_json = Some (JBool True)\<rparr>
      else if url = ''http://acs:7557/devices/cpe1/parameters/Device.WiFi.Radio.1.Enable'' then
        Inr \<lparr>acs_status = 200, acs_text = ''false'', acs_json = Some (JBool False)\<rparr>
      else if url = ''http://acs:7557/devices/cpe1/parameters/Device.WiFi.AccessPoint.1.Enable'' then
        Inr \<lparr>acs_status = 200, acs_text = ''false'', acs_json = Some (JBool False)\<rparr>
      else Inr \<lparr>acs_status = 404, acs_text = ''Not found'', acs_json = None\<rparr>)"










section \<open>Device detection: the priority of the checks\<close>

lemma first_detection_no_device:
  "\<forall>r\<in>set results. r = Returned None \<or> (\<exists>e. r = Raised e) \<Longrightarrow>
   first_detection results ip =
     \<lparr>device_type = ''unknown'', manufacturer = None, model = None, device_id = None,
      ip_address = Some ip, capabilities = []\<rparr>"
  by (induction results ip rule: first_detection.induct) auto

lemma first_detection_skips_raised:
  "first_detection (before @ Raised e # after) ip = first_detection (before @ after) ip"
  by (induction before ip rule: first_detection.induct) simp_all

lemma detect_device_priority:
  "detect_device env ip =
     (case detect_starlink env ip of Some d \<Rightarrow> d | None \<Rightarrow>
      (case detect_mikrotik env ip of Some d \<Rightarrow> d | None \<Rightarrow>
       (case detect_tr069_device env ip of Some d \<Rightarrow> d | None \<Rightarrow>
        (case detect_by_http_fingerprint env ip of Some d \<Rightarrow> d | None \<Rightarrow>
           \<lparr>device_type = ''unknown'', manufacturer = None, model = None, device_id = None,
            ip_address = Some ip, capabilities = []\<rparr>))))"
  by (simp add: detect_device_def gather_def split: option.splits)

lemma busy_net_all_match:
  "detect_mikrotik busy_net ip \<noteq> None"
  "detect_tr069_device busy_net ip \<noteq> None"
  "detect_by_http_fingerprint busy_net ip \<noteq> None"
  by (simp_all add: busy_net_def detect_mikrotik_def check_port_def detect_tr069_device_def
        dict_get_def detect_by_http_fingerprint_def lower_def ascii_uppercase_def
        ascii_lowercase_def)

text \<open>
  C5. When the gateway address is 192.168.100.1 and its port 9200 accepts a connection,
  \<open>detect_device\<close> answers with the satellite terminal, whatever the router ports, the
  registry and the web page say. In general the answer is the first match in the
  order satellite terminal, router, registry, HTTP fingerprint.
\<close>

theorem detect_device_starlink_first:
  "(check_port env ''192.168.100.1'' 9200 \<longrightarrow>
      detect_device env ''192.168.100.1'' =
        \<lparr>device_type = ''starlink'', manufacturer = Some ''SpaceX'',
         model = Some ''Starlink Dish'', device_id = None, ip_address = Some ''192.168.100.1'',
         capabilities = [''wifi_config'', ''status'', ''reboot'', ''stow'']\<rparr>)
   \<and> detect_device env ip =
       (case detect_starlink env ip of Some d \<Rightarrow> d | None \<Rightarrow>
        (case detect_mikrotik env ip of Some d \<Rightarrow> d | None \<Rightarrow>
         (case detect_tr069_device env ip of Some d \<Rightarrow> d | None \<Rightarrow>
          (case detect_by_http_fingerprint env ip of Some d \<Rightarrow> d | None \<Rightarrow>
             \<lparr>device_type = ''unknown'', manufacturer = None, model = None, device_id = None,
              ip_address = Some ip, capabilities = []\<rparr>))))"
proof
  show "check_port env ''192.168.100.1'' 9200 \<longrightarrow>
      detect_device env ''192.168.100.1'' =
        \<lparr>device_type = ''starlink'', manufacturer = Some ''SpaceX'',
         model = Some ''Starlink Dish'', device_id = None, ip_address = Some ''192.168.100.1'',
         capabilities = [''wifi_config'', ''status'', ''reboot'', ''stow'']\<rparr>"
    by (simp add: detect_device_priority detect_starlink_def)
  show "detect_device env ip =
       (case detect_starlink env ip of Some d \<Rightarrow> d | None \<Rightarrow>
        (case detect_mikrotik env ip of Some d \<Rightarrow> d | None \<Rightarrow>
         (case detect_tr069_device env ip of Some d \<Rightarrow> d | None \<Rightarrow>
          (case detect_by_http_fingerprint env ip of Some d \<Rightarrow> d | None \<Rightarrow>
             \<lparr>device_type = ''unknown'', manufacturer = None, model = None, device_id = None,
              ip_address = Some ip, capabilities = []\<rparr>))))"
    by (rule detect_device_priority)
qed

theorem detect_device_starlink_first_witness:
  "check_port busy_net ''192.168.100.1'' 9200
   \<and> detect_mikrotik busy_net ''192.168.100.1'' \<noteq> None
   \<and> detect_tr069_device busy_net ''192.168.100.1'' \<noteq> None
   \<and> detect_by_http_fingerprint busy_net ''192.168.100.1'' \<noteq> None
   \<and> detect_device busy_net ''192.168.100.1'' =
        \<lparr>device_type = ''starlink'', manufacturer = Some ''SpaceX'',
         model = Some ''Starlink Dish'', device_id = None, ip_address = Some ''192.168.100.1'',
         capabilities = [''wifi_config'', ''status'', ''reboot'', ''stow'']\<rparr>"
proof -
  have open_port: "check_port busy_net ''192.168.100.1'' 9200"
    by (simp add: busy_net_def check_port_def)
  from detect_device_starlink_first [of busy_net "''192.168.100.1''"] open_port
  have "detect_device busy_net ''192.168.100.1'' =
        \<lparr>device_type = ''starlink'', manufacturer = Some ''SpaceX'',
         model = Some ''Starlink Dish'', device_id = None, ip_address = Some ''192.168.100.1'',
         capabilities = [''wifi_config'', ''status'', ''reboot'', ''stow'']\<rparr>"
    by blast
  with open_port busy_net_all_match show ?thesis by blast
qed

text \<open>
  C6. When none of the four checks returns a device, each finding nothing or raising,
  \<open>detect_device\<close> still answers: the device is \<open>unknown\<close> and its capability list
  is empty. This holds for any list of results handed back by the gather, for the four
  checks of \<open>detect_device\<close>, and for a gateway on which no port connects while the
  registry query and the HTTP request raise. An exception among the results is
  skipped, wherever it stands.
\<close>

theorem detect_device_unknown:
  "((\<forall>r\<in>set results. r = Returned None \<or> (\<exists>e. r = Raised e)) \<longrightarrow>
      first_detection results ip =
        \<lparr>device_type = ''unknown'', manufacturer = None, model = None, device_id = None,
         ip_address = Some ip, capabilities = []\<rparr>)
   \<and> ((\<forall>r\<in>set (gather env ip). r = Returned None \<or> (\<exists>e. r = Raised e)) \<longrightarrow>
      detect_device env ip =
        \<lparr>device_type = ''unknown'', manufacturer = None, model = None, device_id = None,
         ip_address = Some ip, capabilities = []\<rparr>)
   \<and> ((\<forall>port. \<not> check_port env ip port) \<and> (\<exists>e. acs_devices env (acs_query ip) = Inl e)
        \<and> (\<exists>e. http_get env (''http://'' @ ip @ ''/'') = Inl e) \<longrightarrow>
      detect_device env ip =
        \<lparr>device_type = ''unknown'', manufacturer = None, model = None, device_id = None,
         ip_address = Some ip, capabilities = []\<rparr>)
   \<and> first_detection (before @ Raised e # after) ip = first_detection (before @ after) ip"
proof (intro conjI impI)
  assume "\<forall>r\<in>set results. r = Returned None \<or> (\<exists>e. r = Raised e)"
  then show "first_detection results ip =
        \<lparr>device_type = ''unknown'', manufacturer = None, model = None, device_id = None,
         ip_address = Some ip, capabilities = []\<rparr>"
    by (rule first_detection_no_device)
next
  assume "\<forall>r\<in>set (gather env ip). r = Returned None \<or> (\<exists>e. r = Raised e)"
  then show "detect_device env ip =
        \<lparr>device_type = ''unknown'', manufacturer = None, model = None, device_id = None,
         ip_address = Some ip, capabilities = []\<rparr>"
    unfolding detect_device_def by (rule first_detection_no_device)
next
  assume quiet: "(\<forall>port. \<not> check_port env ip port) \<and> (\<exists>e. acs_devices env (acs_query ip) = Inl e)
        \<and> (\<exists>e. http_get env (''http://'' @ ip @ ''/'') = Inl e)"
  then have "detect_starlink env ip = None" "detect_mikrotik env ip = None"
    "detect_tr069_device env ip = None" "detect_by_http_fingerprint env ip = None"
    by (auto simp add: detect_starlink_def detect_mikrotik_def detect_tr069_device_def
          detect_by_http_fingerprint_def)
  then show "detect_device env ip =
        \<lparr>device_type = ''unknown'', manufacturer = None, model = None, device_id = None,
         ip_address = Some ip, capabilities = []\<rparr>"
    by (simp add: detect_device_priority)
next
  show "first_detection (before @ Raised e # after) ip = first_detection (before @ after) ip"
    by (rule first_detection_skips_raised)
qed

theorem detect_device_unknown_witness:
  "detect_device dead_net ''10.0.0.1'' =
     \<lparr>device_type = ''unknown'', manufacturer = None, model = None, device_id = None,
      ip_address = Some ''10.0.0.1'', capabilities = []\<rparr>
   \<and> first_detection [Raised (Error ''TimeoutError''), Returned None,
                       Raised (Error ''ConnectError''), Returned None] ''10.0.0.1'' =
     \<lparr>device_type = ''unknown'', manufacturer = None, model = None, device_id = None,
      ip_address = Some ''10.0.0.1'', capabilities = []\<rparr>"
proof -
  have closed: "\<forall>port. \<not> check_port dead_net ''10.0.0.1'' port"
    by (simp add: dead_net_def check_port_def)
  have acs: "\<exists>e. acs_devices dead_net (acs_query ''10.0.0.1'') = Inl e"
    by (simp add: dead_net_def)
  have web: "\<exists>e. http_get dead_net (''http://'' @ ''10.0.0.1'' @ ''/'') = Inl e"
    by (simp add: dead_net_def)
  have none: "\<forall>r\<in>set [Raised (Error ''TimeoutError''), Returned None,
                       Raised (Error ''ConnectError''), Returned None].
                r = Returned None \<or> (\<exists>e. r = Raised e)"
    by simp
  from detect_device_unknown
         [of "[Raised (Error ''TimeoutError''), Returned None,
               Raised (Error ''ConnectError''), Returned None]" "''10.0.0.1''" dead_net]
       closed acs web none
  show ?thesis by blast
qed

text \<open>
  C8. When port 9200 of the gateway does not connect and the API port 8728 or the
  Winbox port 8291 does, \<open>detect_device\<close> answers with the router and the capabilities
  \<open>wifi_config\<close>, \<open>status\<close>, \<open>reboot\<close>, followed by the three hotspot capabilities
  exactly when port 80 connects.
\<close>

theorem detect_device_mikrotik:
  assumes "\<not> check_port env ip 9200"
      and "check_port env ip 8728 \<or> check_port env ip 8291"
  shows "detect_device env ip =
           \<lparr>device_type = ''mikrotik'', manufacturer = Some ''MikroTik'', model = None,
            device_id = None, ip_address = Some ip,
            capabilities = [''wifi_config'', ''status'', ''reboot'']
              @ (if check_port env ip 80
                 then [''hotspot_users'', ''hotspot_vouchers'', ''hotspot_profiles''] else [])\<rparr>
         \<and> (set [''hotspot_users'', ''hotspot_vouchers'', ''hotspot_profiles'']
               \<subseteq> set (capabilities (detect_device env ip))) = check_port env ip 80
         \<and> (set [''hotspot_users'', ''hotspot_vouchers'', ''hotspot_profiles'']
               \<inter> set (capabilities (detect_device env ip)) = {}) = (\<not> check_port env ip 80)"
proof -
  from assms have "detect_starlink env ip = None"
    by (auto simp add: detect_starlink_def)
  moreover from assms have "detect_mikrotik env ip =
      Some \<lparr>device_type = ''mikrotik'', manufacturer = Some ''MikroTik'', model = None,
            device_id = None, ip_address = Some ip,
            capabilities = [''wifi_config'', ''status'', ''reboot'']
              @ (if check_port env ip 80
                 then [''hotspot_users'', ''hotspot_vouchers'', ''hotspot_profiles''] else [])\<rparr>"
    by (auto simp add: detect_mikrotik_def Let_def)
  ultimately have result: "detect_device env ip =
           \<lparr>device_type = ''mikrotik'', manufacturer = Some ''MikroTik'', model = None,
            device_id = None, ip_address = Some ip,
            capabilities = [''wifi_config'', ''status'', ''reboot'']
              @ (if check_port env ip 80
                 then [''hotspot_users'', ''hotspot_vouchers'', ''hotspot_profiles''] else [])\<rparr>"
    by (simp add: detect_device_priority)
  show ?thesis
    unfolding result by simp
qed

theorem detect_device_mikrotik_witness:
  "\<not> check_port router_net ''192.168.100.1'' 9200
   \<and> check_port router_net ''192.168.100.1'' 8728
   \<and> check_port router_net ''192.168.100.1'' 80
   \<and> detect_device router_net ''192.168.100.1'' =
        \<lparr>device_type = ''mikrotik'', manufacturer = Some ''MikroTik'', model = None,
         device_id = None, ip_address = Some ''192.168.100.1'',
         capabilities = [''wifi_config'', ''status'', ''reboot'', ''hotspot_users'',
                         ''hotspot_vouchers'', ''hotspot_profiles'']\<rparr>"
proof -
  have closed: "\<not> check_port router_net ''192.168.100.1'' 9200"
    by (simp add: router_net_def busy_net_def check_port_def)
  have api: "check_port router_net ''192.168.100.1'' 8728"
    by (simp add: router_net_def busy_net_def check_port_def)
  have web: "check_port router_net ''192.168.100.1'' 80"
    by (simp add: router_net_def busy_net_def check_port_def)
  from detect_device_mikrotik [OF closed, of] api web closed
  show ?thesis by simp
qed

section \<open>Session tokens: the bearer prefix and the failure modes\<close>

lemma py_in_sublist: "py_in sub s = sublist sub s"
  by (induction s) (simp_all add: sublist_Cons_right)

lemma replace_from_absent:
  "old \<noteq> [] \<Longrightarrow> \<not> py_in old s \<Longrightarrow> replace_from old new s = s"
  by (induction s) simp_all

lemma replace_from_at_front:
  "old \<noteq> [] \<Longrightarrow> replace_from old new (old @ s) = new @ replace_from old new s"
  by (cases old) simp_all

text \<open>The word \<open>Bearer \<close> does not overlap itself: an occurrence that starts inside
  \<open>a\<close> and reaches into a following occurrence would need a second \<open>B\<close>.\<close>

lemma bearer_no_overlap:
  assumes "prefix ''Bearer '' (a @ ''Bearer '' @ b)" and "a \<noteq> []"
  shows "prefix ''Bearer '' a"
proof -
  from assms obtain c1 a1 where a: "a = c1 # a1" by (cases a) auto
  with assms(1) have 1: "a1 \<noteq> []" by (cases a1) auto
  then obtain c2 a2 where a1: "a1 = c2 # a2" by (cases a1) auto
  with assms(1) a have 2: "a2 \<noteq> []" by (cases a2) auto
  then obtain c3 a3 where a2: "a2 = c3 # a3" by (cases a2) auto
  with assms(1) a a1 have 3: "a3 \<noteq> []" by (cases a3) auto
  then obtain c4 a4 where a3: "a3 = c4 # a4" by (cases a3) auto
  with assms(1) a a1 a2 have 4: "a4 \<noteq> []" by (cases a4) auto
  then obtain c5 a5 where a4: "a4 = c5 # a5" by (cases a4) auto
  with assms(1) a a1 a2 a3 have 5: "a5 \<noteq> []" by (cases a5) auto
  then obtain c6 a6 where a5: "a5 = c6 # a6" by (cases a5) auto
  with assms(1) a a1 a2 a3 a4 have 6: "a6 \<noteq> []" by (cases a6) auto
  then obtain c7 a7 where a6: "a6 = c7 # a7" by (cases a6) auto
  with assms(1) a a1 a2 a3 a4 a5 show ?thesis by auto
qed

lemma replace_bearer_append:
  "replace_from ''Bearer '' new (a @ ''Bearer '' @ b) =
   replace_from ''Bearer '' new a @ new @ replace_from ''Bearer '' new b"
proof (induction a rule: length_induct)
  case (1 a)
  show ?case
  proof (cases a)
    case Nil
    then show ?thesis using replace_from_at_front [of "''Bearer ''" new b] by simp
  next
    case (Cons c cs)
    show ?thesis
    proof (cases "prefix ''Bearer '' a")
      case True
      then obtain rest where rest: "a = ''Bearer '' @ rest" by (auto simp: prefix_def)
      then have "length rest < length a" by simp
      with 1 have "replace_from ''Bearer '' new (rest @ ''Bearer '' @ b) =
          replace_from ''Bearer '' new rest @ new @ replace_from ''Bearer '' new b"
        by blast
      then show ?thesis
        using replace_from_at_front [of "''Bearer ''" new "rest @ ''Bearer '' @ b"]
              replace_from_at_front [of "''Bearer ''" new rest]
        by (simp add: rest)
    next
      case False
      with bearer_no_overlap [of a b] Cons
      have no: "\<not> prefix ''Bearer '' (a @ ''Bearer '' @ b)" by auto
      have "length cs < length a" using Cons by simp
      with 1 have ih: "replace_from ''Bearer '' new (cs @ ''Bearer '' @ b) =
          replace_from ''Bearer '' new cs @ new @ replace_from ''Bearer '' new b"
        by blast
      from False Cons have "replace_from ''Bearer '' new a = c # replace_from ''Bearer '' new cs"
        by auto
      moreover from no Cons have "replace_from ''Bearer '' new (a @ ''Bearer '' @ b) =
          c # replace_from ''Bearer '' new (cs @ ''Bearer '' @ b)"
        by auto
      ultimately show ?thesis using ih by simp
    qed
  qed
qed

lemma str_replace_bearer_absent:
  "\<not> py_in ''Bearer '' t \<Longrightarrow> str_replace t ''Bearer '' '''' = t"
  by (simp add: str_replace_def replace_from_absent)

lemma str_replace_bearer_append:
  "str_replace (a @ ''Bearer '' @ b) ''Bearer '' '''' =
   str_replace a ''Bearer '' '''' @ str_replace b ''Bearer '' ''''"
  using replace_bearer_append [of "''''" a b] by (simp add: str_replace_def)

lemma py_in_append:
  "py_in sub a \<Longrightarrow> py_in sub (a @ b)" "py_in sub b \<Longrightarrow> py_in sub (a @ b)"
  by (auto simp add: py_in_sublist sublist_append)

text \<open>
  C9. A header value \<open>t\<close> that does not contain \<open>Bearer \<close> is verified the same with
  and without the prefix, so the scheme prefix is not required. The word is removed
  wherever it stands: a header with an occurrence between \<open>a\<close> and \<open>b\<close> is verified
  as \<open>a @ b\<close> when that contains no occurrence, and in general the token that is
  decoded is the stripped \<open>a\<close> followed by the stripped \<open>b\<close>.
\<close>

theorem verify_token_bearer_stripped:
  "(\<not> py_in ''Bearer '' t \<longrightarrow>
      verify_token jwt cfg clock (''Bearer '' @ t) = verify_token jwt cfg clock t)
   \<and> (\<not> py_in ''Bearer '' (a @ b) \<longrightarrow>
      verify_token jwt cfg clock (a @ ''Bearer '' @ b) = verify_token jwt cfg clock (a @ b))
   \<and> str_replace (a @ ''Bearer '' @ b) ''Bearer '' '''' =
       str_replace a ''Bearer '' '''' @ str_replace b ''Bearer '' ''''"
proof (intro conjI impI)
  assume "\<not> py_in ''Bearer '' t"
  then have "str_replace (''Bearer '' @ t) ''Bearer '' '''' = str_replace t ''Bearer '' ''''"
    using str_replace_bearer_append [of "[]" t] by (simp add: str_replace_def)
  then show "verify_token jwt cfg clock (''Bearer '' @ t) = verify_token jwt cfg clock t"
    by (simp add: verify_token_def del: append.simps)
next
  assume absent: "\<not> py_in ''Bearer '' (a @ b)"
  then have "\<not> py_in ''Bearer '' a" "\<not> py_in ''Bearer '' b"
    using py_in_append by blast+
  then have "str_replace (a @ ''Bearer '' @ b) ''Bearer '' '''' = a @ b"
    by (simp add: str_replace_bearer_append str_replace_bearer_absent del: append.simps)
  also have "\<dots> = str_replace (a @ b) ''Bearer '' ''''"
    using absent by (simp add: str_replace_bearer_absent)
  finally show "verify_token jwt cfg clock (a @ ''Bearer '' @ b) = verify_token jwt cfg clock (a @ b)"
    by (simp add: verify_token_def del: append.simps)
next
  show "str_replace (a @ ''Bearer '' @ b) ''Bearer '' '''' =
       str_replace a ''Bearer '' '''' @ str_replace b ''Bearer '' ''''"
    by (rule str_replace_bearer_append)
qed

theorem verify_token_bearer_stripped_witness:
  "\<not> py_in ''Bearer '' ''hdr.login.sig''
   \<and> verify_token demo_jwt demo_settings 2000 (''Bearer '' @ ''hdr.login.sig'') =
       verify_token demo_jwt demo_settings 2000 ''hdr.login.sig''
   \<and> \<not> py_in ''Bearer '' (''hdr.login'' @ ''.sig'')
   \<and> verify_token demo_jwt demo_settings 2000 (''hdr.login'' @ ''Bearer '' @ ''.sig'') =
       verify_token demo_jwt demo_settings 2000 (''hdr.login'' @ ''.sig'')
   \<and> verify_token demo_jwt demo_settings 2000 ''hdr.login.sig'' =
       Inr \<lparr>customer_id = 7, uisp_customer_id = ''42'', email = ''ann@example.org'', exp = 87400\<rparr>"
proof -
  have absent: "\<not> py_in ''Bearer '' ''hdr.login.sig''"
    by simp
  have absent': "\<not> py_in ''Bearer '' (''hdr.login'' @ ''.sig'')"
    by simp
  have decoded: "verify_token demo_jwt demo_settings 2000 ''hdr.login.sig'' =
       Inr \<lparr>customer_id = 7, uisp_customer_id = ''42'', email = ''ann@example.org'', exp = 87400\<rparr>"
    by (simp add: verify_token_def str_replace_def demo_jwt_def table_jwt_def demo_settings_def
          TokenPayload_of_def)
  from verify_token_bearer_stripped
         [of "''hdr.login.sig''" demo_jwt demo_settings 2000 "''hdr.login''" "''.sig''"]
       absent absent' decoded
  show ?thesis by blast
qed

text \<open>
  C2 as stated fails for the request without an \<open>Authorization\<close> header: the
  dependency does not answer it with a 401 and a message of its own. The header is a
  required parameter of the route, the request is rejected as a validation error (422)
  and \<open>verify_token\<close> is never run.
\<close>

theorem missing_header_is_not_unauthorized:
  "verify_token_dependency demo_jwt demo_settings 2000 None =
     Inl (RequestValidationError ''authorization'')
   \<and> status_of (RequestValidationError ''authorization'') = 422
   \<and> verify_token_dependency demo_jwt demo_settings 2000 (Some '''') =
     Inl (HTTPException 401 ''Invalid token'')"
  by (simp add: verify_token_dependency_def verify_token_def str_replace_def demo_jwt_def
        table_jwt_def)

text \<open>
  C2, amended. A token the library rejects as expired is answered with 401 and
  \<open>Token has expired\<close>; a token it rejects for any other reason (malformed, wrongly
  signed) is answered with 401 and \<open>Invalid token\<close>. The two answers differ, and a
  token reported as invalid is never one the library found expired. A request without
  the header is rejected by the required-header validation of the route, before
  \<open>verify_token\<close> runs.
\<close>

theorem verify_token_failure_modes:
  "(jwt_decode jwt (str_replace authorization ''Bearer '' '''') (SECRET_KEY cfg)
        [JWT_ALGORITHM cfg] clock = Inl ExpiredSignatureError \<longrightarrow>
      verify_token jwt cfg clock authorization = Inl (HTTPException 401 ''Token has expired''))
   \<and> (jwt_decode jwt (str_replace authorization ''Bearer '' '''') (SECRET_KEY cfg)
        [JWT_ALGORITHM cfg] clock = Inl (InvalidTokenError e) \<longrightarrow>
      verify_token jwt cfg clock authorization = Inl (HTTPException 401 ''Invalid token''))
   \<and> (verify_token jwt cfg clock authorization = Inl (HTTPException 401 ''Invalid token'') \<longrightarrow>
      jwt_decode jwt (str_replace authorization ''Bearer '' '''') (SECRET_KEY cfg)
        [JWT_ALGORITHM cfg] clock \<noteq> Inl ExpiredSignatureError)
   \<and> HTTPException 401 ''Token has expired'' \<noteq> HTTPException 401 ''Invalid token''
   \<and> verify_token_dependency jwt cfg clock (Some authorization) =
       verify_token jwt cfg clock authorization
   \<and> verify_token_dependency jwt cfg clock None = Inl (RequestValidationError ''authorization'')"
  by (auto simp add: verify_token_def verify_token_dependency_def
        split: sum.splits jwt_exception.splits option.splits)

theorem verify_token_failure_modes_witness:
  "jwt_decode demo_jwt (str_replace ''Bearer hdr.old.sig'' ''Bearer '' '''')
       (SECRET_KEY demo_settings) [JWT_ALGORITHM demo_settings] 2000 = Inl ExpiredSignatureError
   \<and> verify_token demo_jwt demo_settings 2000 ''Bearer hdr.old.sig'' =
       Inl (HTTPException 401 ''Token has expired'')
   \<and> jwt_decode demo_jwt (str_replace ''Bearer hdr.forged.sig'' ''Bearer '' '''')
       (SECRET_KEY demo_settings) [JWT_ALGORITHM demo_settings] 2000 =
       Inl (InvalidTokenError ''InvalidSignatureError'')
   \<and> verify_token demo_jwt demo_settings 2000 ''Bearer hdr.forged.sig'' =
       Inl (HTTPException 401 ''Invalid token'')
   \<and> jwt_decode demo_jwt (str_replace ''Bearer garbage'' ''Bearer '' '''')
       (SECRET_KEY demo_settings) [JWT_ALGORITHM demo_settings] 2000 =
       Inl (InvalidTokenError ''DecodeError'')
   \<and> verify_token demo_jwt demo_settings 2000 ''Bearer garbage'' =
       Inl (HTTPException 401 ''Invalid token'')"
proof -
  have old: "jwt_decode demo_jwt (str_replace ''Bearer hdr.old.sig'' ''Bearer '' '''')
       (SECRET_KEY demo_settings) [JWT_ALGORITHM demo_settings] 2000 = Inl ExpiredSignatureError"
    by (simp add: str_replace_def demo_jwt_def table_jwt_def demo_settings_def)
  have forged: "jwt_decode demo_jwt (str_replace ''Bearer hdr.forged.sig'' ''Bearer '' '''')
       (SECRET_KEY demo_settings) [JWT_ALGORITHM demo_settings] 2000 =
       Inl (InvalidTokenError ''InvalidSignatureError'')"
    by (simp add: str_replace_def demo_jwt_def table_jwt_def demo_settings_def)
  have garbage: "jwt_decode demo_jwt (str_replace ''Bearer garbage'' ''Bearer '' '''')
       (SECRET_KEY demo_settings) [JWT_ALGORITHM demo_settings] 2000 =
       Inl (InvalidTokenError ''DecodeError'')"
    by (simp add: str_replace_def demo_jwt_def table_jwt_def demo_settings_def)
  from verify_token_failure_modes [of demo_jwt "''Bearer hdr.old.sig''" demo_settings 2000] old
  have 1: "verify_token demo_jwt demo_settings 2000 ''Bearer hdr.old.sig'' =
       Inl (HTTPException 401 ''Token has expired'')"
    by blast
  from verify_token_failure_modes
         [of demo_jwt "''Bearer hdr.forged.sig''" demo_settings 2000 "''InvalidSignatureError''"]
       forged
  have 2: "verify_token demo_jwt demo_settings 2000 ''Bearer hdr.forged.sig'' =
       Inl (HTTPException 401 ''Invalid token'')"
    by blast
  from verify_token_failure_modes
         [of demo_jwt "''Bearer garbage''" demo_settings 2000 "''DecodeError''"]
       garbage
  have 3: "verify_token demo_jwt demo_settings 2000 ''Bearer garbage'' =
       Inl (HTTPException 401 ''Invalid token'')"
    by blast
  from old forged garbage 1 2 3 show ?thesis by blast
qed

section \<open>Session tokens: what a verified token gives back\<close>

text \<open>
  What does come back. When the library decodes the token minted from \<open>data\<close> to the
  payload it was given, \<open>verify_token\<close> returns the subscriber id, the external id and
  the e-mail address of \<open>data\<close> with the expiry set at creation, and nothing else of
  \<open>data\<close>.
\<close>

lemma create_access_token_payload:
  "create_access_token jwt cfg utcnow data =
     jwt_encode jwt (AList.update ''exp'' (JInt (utcnow + 3600 * JWT_EXPIRATION_HOURS cfg)) data)
       (SECRET_KEY cfg) (JWT_ALGORITHM cfg)"
  by (simp add: create_access_token_def)

lemma verify_created_token:
  assumes fields: "map_of data ''customer_id'' = Some (JInt c)"
      "map_of data ''uisp_customer_id'' = Some (JStr u)" "map_of data ''email'' = Some (JStr e)"
    and plain: "\<not> py_in ''Bearer '' (create_access_token jwt cfg utcnow data)"
    and library: "jwt_decode jwt (create_access_token jwt cfg utcnow data) (SECRET_KEY cfg)
        [JWT_ALGORITHM cfg] clock =
        Inr (AList.update ''exp'' (JInt (utcnow + 3600 * JWT_EXPIRATION_HOURS cfg)) data)"
  shows "verify_token jwt cfg clock (''Bearer '' @ create_access_token jwt cfg utcnow data) =
     Inr \<lparr>customer_id = c, uisp_customer_id = u, email = e,
          exp = utcnow + 3600 * JWT_EXPIRATION_HOURS cfg\<rparr>"
proof -
  have "str_replace (''Bearer '' @ create_access_token jwt cfg utcnow data) ''Bearer '' '''' =
      create_access_token jwt cfg utcnow data"
    using str_replace_bearer_append [of "[]" "create_access_token jwt cfg utcnow data"]
          str_replace_bearer_absent [OF plain]
    by (simp add: str_replace_def)
  moreover have "TokenPayload_of
      (AList.update ''exp'' (JInt (utcnow + 3600 * JWT_EXPIRATION_HOURS cfg)) data) =
      Some \<lparr>customer_id = c, uisp_customer_id = u, email = e,
            exp = utcnow + 3600 * JWT_EXPIRATION_HOURS cfg\<rparr>"
    using fields by (simp add: TokenPayload_of_def update_conv')
  ultimately show ?thesis
    using library by (simp add: verify_token_def del: append.simps)
qed

text \<open>
  C3 on the token of a login. The payload handed to \<open>create_access_token\<close> holds the
  subscriber id, the external id, the e-mail address and the session token of the
  billing platform. The library decodes the token to that payload with its expiry;
  \<open>verify_token\<close> returns the first three and the expiry. The session token of the
  billing platform is not in what it returns.
\<close>

theorem login_token_round_trip_drops_uisp_token:
  "create_access_token demo_jwt demo_settings 1000 login_data = ''hdr.login.sig''
   \<and> jwt_decode demo_jwt ''hdr.login.sig'' (SECRET_KEY demo_settings)
        [JWT_ALGORITHM demo_settings] 2000 =
        Inr (AList.update ''exp'' (JInt 87400) login_data)
   \<and> verify_token demo_jwt demo_settings 2000
        (''Bearer '' @ create_access_token demo_jwt demo_settings 1000 login_data) =
        Inr \<lparr>customer_id = 7, uisp_customer_id = ''42'', email = ''ann@example.org'', exp = 87400\<rparr>
   \<and> map_of login_data ''uisp_token'' = Some (JStr ''x-auth-1'')
   \<and> map_of (model_dump \<lparr>customer_id = 7, uisp_customer_id = ''42'',
                          email = ''ann@example.org'', exp = 87400\<rparr>) ''uisp_token'' = None"
  by (simp add: create_access_token_def verify_token_def str_replace_def demo_jwt_def
        table_jwt_def demo_settings_def login_data_def TokenPayload_of_def model_dump_def)

section \<open>Hotspot vouchers: the batch and its failures\<close>

lemma generate_loop_accepted:
  assumes "\<forall>j. add_error r j = None"
  shows "\<exists>vs us. generate_loop r rand req n i users acc = (Inr (acc @ vs), users @ us)
           \<and> length vs = n \<and> length us = n
           \<and> (\<forall>v\<in>set vs. map_of v ''profile'' = Some (profile req)
                          \<and> map_of v ''validity'' = Some (validity req))"
proof (induction n arbitrary: i users acc)
  case 0
  show ?case by simp
next
  case (Suc n)
  define code where "code = code_prefix req
      @ random_choices rand (i * nat (code_length req)) (ascii_uppercase @ digits) (code_length req)"
  define u where "u = [(''name'', code), (''password'', code), (''profile'', profile req),
      (''limit-uptime'', validity req), (''comment'', ''Voucher generated automatically'')]"
  define v where "v = [(''code'', code), (''profile'', profile req), (''validity'', validity req)]"
  from Suc [of "Suc i" "users @ [u]" "acc @ [v]"]
  obtain vs us where rest:
    "generate_loop r rand req n (Suc i) (users @ [u]) (acc @ [v])
       = (Inr ((acc @ [v]) @ vs), (users @ [u]) @ us)"
    "length vs = n" "length us = n"
    "\<forall>v\<in>set vs. map_of v ''profile'' = Some (profile req)
        \<and> map_of v ''validity'' = Some (validity req)"
    by blast
  have step: "generate_loop r rand req (Suc n) i users acc =
      generate_loop r rand req n (Suc i) (users @ [u]) (acc @ [v])"
    using assms by (simp add: Let_def code_def u_def v_def)
  have "map_of v ''profile'' = Some (profile req) \<and> map_of v ''validity'' = Some (validity req)"
    by (simp add: v_def)
  with rest step show ?case
    by (intro exI [of _ "v # vs"] exI [of _ "u # us"]) auto
qed

text \<open>What C1 says of the number and the tags of the records does hold: a router that is
  reached and accepts every user gives \<open>N\<close> records, each with the profile and the
  validity of the request.\<close>

lemma generate_vouchers_count_and_tags:
  assumes "connect_error r = None" and "\<forall>j. add_error r j = None"
  shows "\<exists>vs. fst (generate_vouchers r rand req) = Inr vs \<and> int (length vs) = max 0 (count req)
           \<and> (\<forall>v\<in>set vs. map_of v ''profile'' = Some (profile req)
                          \<and> map_of v ''validity'' = Some (validity req))"
proof -
  from generate_loop_accepted [OF assms(2), of rand req "nat (count req)" 0 "hotspot_user r" "[]"]
  obtain vs us where
    "generate_loop r rand req (nat (count req)) 0 (hotspot_user r) [] = (Inr vs, hotspot_user r @ us)"
    "length vs = nat (count req)"
    "\<forall>v\<in>set vs. map_of v ''profile'' = Some (profile req)
        \<and> map_of v ''validity'' = Some (validity req)"
    by auto
  with assms(1) show ?thesis
    by (auto simp add: generate_vouchers_def)
qed

text \<open>
  C1 at a request for two vouchers with \<^verbatim>\<open>code_length\<close> 0, sent to the route of
  app/api/mikrotik.py: whatever the generator draws, both records carry the code
  \<open>V\<close>. The same happens to a quick-voucher request, with its codes of length 8, when
  the generator repeats its draws.
\<close>

theorem generate_vouchers_same_code_twice:
  "generate_vouchers open_router rand
      \<lparr>count = 2, profile = ''1day'', code_prefix = ''V'', validity = ''1d'', code_length = 0\<rparr> =
     (Inr [[(''code'', ''V''), (''profile'', ''1day''), (''validity'', ''1d'')],
           [(''code'', ''V''), (''profile'', ''1day''), (''validity'', ''1d'')]],
      [[(''name'', ''V''), (''password'', ''V''), (''profile'', ''1day''), (''limit-uptime'', ''1d''),
        (''comment'', ''Voucher generated automatically'')],
       [(''name'', ''V''), (''password'', ''V''), (''profile'', ''1day''), (''limit-uptime'', ''1d''),
        (''comment'', ''Voucher generated automatically'')]])
   \<and> fst (generate_quick_vouchers open_router repeating_rand ''1day'' 2) =
     Inr \<lparr>vouchers = [[(''code'', ''1DABCDEFGH''), (''profile'', ''1day''), (''validity'', ''1d'')],
                      [(''code'', ''1DABCDEFGH''), (''profile'', ''1day''), (''validity'', ''1d'')]],
          preset = ''1day'',
          preset_details = [(''profile'', ''1day''), (''validity'', ''1d''), (''rate'', ''10M/10M'')]\<rparr>"
proof
  show "generate_vouchers open_router rand
      \<lparr>count = 2, profile = ''1day'', code_prefix = ''V'', validity = ''1d'', code_length = 0\<rparr> =
     (Inr [[(''code'', ''V''), (''profile'', ''1day''), (''validity'', ''1d'')],
           [(''code'', ''V''), (''profile'', ''1day''), (''validity'', ''1d'')]],
      [[(''name'', ''V''), (''password'', ''V''), (''profile'', ''1day''), (''limit-uptime'', ''1d''),
        (''comment'', ''Voucher generated automatically'')],
       [(''name'', ''V''), (''password'', ''V''), (''profile'', ''1day''), (''limit-uptime'', ''1d''),
        (''comment'', ''Voucher generated automatically'')]])"
    by (simp add: generate_vouchers_def open_router_def random_choices_def eval_nat_numeral Let_def)
  show "fst (generate_quick_vouchers open_router repeating_rand ''1day'' 2) =
     Inr \<lparr>vouchers = [[(''code'', ''1DABCDEFGH''), (''profile'', ''1day''), (''validity'', ''1d'')],
                      [(''code'', ''1DABCDEFGH''), (''profile'', ''1day''), (''validity'', ''1d'')]],
          preset = ''1day'',
          preset_details = [(''profile'', ''1day''), (''validity'', ''1d''), (''rate'', ''10M/10M'')]\<rparr>"
    by code_simp
qed

lemma generate_loop_rejected:
  assumes "\<forall>j. i \<le> j \<and> j < k \<longrightarrow> add_error r j = None" and "add_error r k = Some e"
    and "i \<le> k" and "k < i + n"
  shows "\<exists>added. generate_loop r rand req n i users acc = (Inl (Error e), users @ added)
           \<and> length added = k - i"
  using assms
proof (induction n arbitrary: i users acc)
  case 0
  then show ?case by simp
next
  case (Suc n)
  show ?case
  proof (cases "i = k")
    case True
    with Suc.prems show ?thesis by (simp add: Let_def)
  next
    case False
    with Suc.prems have accepted: "add_error r i = None" and later: "Suc i \<le> k" "k < Suc i + n"
      by auto
    define code where "code = code_prefix req
      @ random_choices rand (i * nat (code_length req)) (ascii_uppercase @ digits) (code_length req)"
    define u where "u = [(''name'', code), (''password'', code), (''profile'', profile req),
      (''limit-uptime'', validity req), (''comment'', ''Voucher generated automatically'')]"
    define v where "v = [(''code'', code), (''profile'', profile req), (''validity'', validity req)]"
    from Suc.prems have "\<forall>j. Suc i \<le> j \<and> j < k \<longrightarrow> add_error r j = None" by auto
    from Suc.IH [OF this Suc.prems(2) later, of "users @ [u]" "acc @ [v]"]
    obtain added where rest:
      "generate_loop r rand req n (Suc i) (users @ [u]) (acc @ [v])
         = (Inl (Error e), (users @ [u]) @ added)" "length added = k - Suc i"
      by blast
    have step: "generate_loop r rand req (Suc n) i users acc =
        generate_loop r rand req n (Suc i) (users @ [u]) (acc @ [v])"
      using accepted by (simp add: Let_def code_def u_def v_def)
    from rest step later show ?thesis
      by (intro exI [of _ "u # added"]) auto
  qed
qed

text \<open>
  C4 as stated fails. A batch of three whose second registration the router rejects is
  answered exactly as a batch whose first registration it rejects: with the router's
  exception and nothing else. After the first run one voucher is registered on the
  router, after the second none, and the answer tells neither.
\<close>

theorem partial_failure_answered_as_total_failure:
  "fst (generate_vouchers (rejecting_router 1 ''failure: no such profile'') counting_rand
          three_day_vouchers) = Inl (Error ''failure: no such profile'')
   \<and> fst (generate_vouchers (rejecting_router 0 ''failure: no such profile'') counting_rand
          three_day_vouchers) = Inl (Error ''failure: no such profile'')
   \<and> map (\<lambda>u. map_of u ''name'')
        (snd (generate_vouchers (rejecting_router 1 ''failure: no such profile'') counting_rand
                three_day_vouchers)) = [Some ''1DABCDEFGH'']
   \<and> snd (generate_vouchers (rejecting_router 0 ''failure: no such profile'') counting_rand
            three_day_vouchers) = []"
  by code_simp

text \<open>
  C4, amended. When the router is reached, accepts the first \<open>k < N\<close> registrations and
  rejects the next one, \<open>generate_vouchers\<close> raises the router's exception. That is
  all the caller receives (the handler of app/main.py answers 500), and it is what a
  router that rejects every registration gives. The \<open>k\<close> users accepted before stay
  in the router's table.
\<close>

theorem generate_vouchers_partial_failure:
  assumes "connect_error r = None" and "k < nat (count req)"
    and "\<forall>i<k. add_error r i = None" and "add_error r k = Some e"
  shows "fst (generate_vouchers r rand req) = Inl (Error e)
         \<and> fst (generate_vouchers (r\<lparr>add_error := (\<lambda>i. Some e)\<rparr>) rand req) = Inl (Error e)
         \<and> (\<exists>added. snd (generate_vouchers r rand req) = hotspot_user r @ added
                     \<and> length added = k)
         \<and> snd (generate_vouchers (r\<lparr>add_error := (\<lambda>i. Some e)\<rparr>) rand req) = hotspot_user r
         \<and> status_of (Error e) = 500"
proof -
  from assms have "\<forall>j. 0 \<le> j \<and> j < k \<longrightarrow> add_error r j = None" by simp
  from generate_loop_rejected [OF this assms(4), of "nat (count req)" rand req "hotspot_user r" "[]"]
       assms(2)
  obtain added where
    "generate_loop r rand req (nat (count req)) 0 (hotspot_user r) [] =
       (Inl (Error e), hotspot_user r @ added)" "length added = k"
    by auto
  with assms(1) have partial: "generate_vouchers r rand req = (Inl (Error e), hotspot_user r @ added)"
    by (simp add: generate_vouchers_def)
  from assms(2) obtain m where m: "nat (count req) = Suc m"
    by (cases "nat (count req)") auto
  with assms(1) have total:
    "generate_vouchers (r\<lparr>add_error := (\<lambda>i. Some e)\<rparr>) rand req = (Inl (Error e), hotspot_user r)"
    by (simp add: generate_vouchers_def Let_def)
  from partial total \<open>length added = k\<close> show ?thesis by simp
qed

theorem generate_vouchers_partial_failure_witness:
  "connect_error (rejecting_router 1 ''failure: no such profile'') = None
   \<and> 1 < nat (count three_day_vouchers)
   \<and> add_error (rejecting_router 1 ''failure: no such profile'') 0 = None
   \<and> add_error (rejecting_router 1 ''failure: no such profile'') 1 = Some ''failure: no such profile''
   \<and> fst (generate_vouchers (rejecting_router 1 ''failure: no such profile'') counting_rand
            three_day_vouchers) = Inl (Error ''failure: no such profile'')
   \<and> length (snd (generate_vouchers (rejecting_router 1 ''failure: no such profile'')
                     counting_rand three_day_vouchers)) = 1"
proof -
  have reached: "connect_error (rejecting_router 1 ''failure: no such profile'') = None"
    by (simp add: rejecting_router_def)
  have size: "1 < nat (count three_day_vouchers)"
    by (simp add: three_day_vouchers_def)
  have first: "\<forall>i<1. add_error (rejecting_router 1 ''failure: no such profile'') i = None"
    by (simp add: rejecting_router_def)
  have second: "add_error (rejecting_router 1 ''failure: no such profile'') 1
      = Some ''failure: no such profile''"
    by (simp add: rejecting_router_def)
  from generate_vouchers_partial_failure [OF reached size first second, of counting_rand]
  have "fst (generate_vouchers (rejecting_router 1 ''failure: no such profile'') counting_rand
            three_day_vouchers) = Inl (Error ''failure: no such profile'')"
    and "length (snd (generate_vouchers (rejecting_router 1 ''failure: no such profile'')
                     counting_rand three_day_vouchers)) = 1"
    by (auto simp add: rejecting_router_def)
  with reached size first second show ?thesis by simp
qed

section \<open>Parameter reads: the keys of the returned map\<close>

lemma loop_step:
  "get_device_parameters_loop send base dev (p # ps) result =
   get_device_parameters_loop send base dev ps
     (case stored send base dev p of
        None \<Rightarrow> result
      | Some data \<Rightarrow> AList.update (last (split p (CHR ''.''))) data result)"
  by (simp add: stored_def split: sum.splits option.splits)

lemma loop_keys:
  "fst ` set (get_device_parameters_loop send base dev ps result) =
   fst ` set result \<union> (\<lambda>p. last (split p (CHR ''.''))) ` {p \<in> set ps. stored send base dev p \<noteq> None}"
proof (induction ps arbitrary: result)
  case Nil
  show ?case by simp
next
  case (Cons p ps)
  show ?case
    unfolding loop_step Cons
    by (cases "stored send base dev p") (auto simp add: dom_update)
qed

lemma loop_distinct:
  "distinct (map fst result) \<Longrightarrow>
   distinct (map fst (get_device_parameters_loop send base dev ps result))"
proof (induction ps arbitrary: result)
  case Nil
  then show ?case by simp
next
  case (Cons p ps)
  then show ?case
    unfolding loop_step
    by (cases "stored send base dev p") (simp_all add: distinct_update)
qed

lemma loop_last_wins:
  "map_of (get_device_parameters_loop send base dev ps result) k =
   (case filter (\<lambda>p. last (split p (CHR ''.'')) = k \<and> stored send base dev p \<noteq> None) ps of
      [] \<Rightarrow> map_of result k
    | q # qs \<Rightarrow> stored send base dev (last (q # qs)))"
proof (induction ps arbitrary: result)
  case Nil
  show ?case by simp
next
  case (Cons p ps)
  show ?case
    unfolding loop_step Cons
    by (cases "stored send base dev p")
       (auto simp add: update_conv' split: list.splits)
qed

lemma image_smaller:
  assumes "x \<in> set xs" "y \<in> set xs" "x \<noteq> y" "f x = f y"
  shows "card (f ` set xs) < length xs"
proof -
  have "\<not> inj_on f (set xs)"
    using assms by (auto simp add: inj_on_def)
  then have "card (f ` set xs) \<noteq> card (set xs)"
    using eq_card_imp_inj_on [of "set xs" f] by auto
  moreover have "card (f ` set xs) \<le> card (set xs)"
    by (simp add: card_image_le)
  moreover have "card (set xs) \<le> length xs"
    by (rule card_length)
  ultimately show ?thesis by linarith
qed

lemma key_absent:
  "k \<notin> fst ` set xs \<Longrightarrow> filter (\<lambda>kv. fst kv = k) xs = []"
  by (induction xs) auto

lemma key_once:
  "distinct (map fst xs) \<Longrightarrow> k \<in> fst ` set xs \<Longrightarrow>
   length (filter (\<lambda>kv. fst kv = k) xs) = 1"
proof (induction xs)
  case Nil
  then show ?case by simp
next
  case (Cons x xs)
  show ?case
  proof (cases "fst x = k")
    case True
    with Cons.prems have "k \<notin> fst ` set xs" by auto
    with True show ?thesis by (simp add: key_absent)
  next
    case False
    with Cons show ?thesis by auto
  qed
qed

lemma parameters_keys:
  "fst ` set (get_device_parameters send base dev ps) =
     (\<lambda>p. last (split p (CHR ''.''))) ` {p \<in> set ps. stored send base dev p \<noteq> None}"
  by (simp add: get_device_parameters_def loop_keys)

lemma parameters_distinct:
  "distinct (map fst (get_device_parameters send base dev ps))"
  by (simp add: get_device_parameters_def loop_distinct)

lemma parameters_fewer:
  assumes "p1 \<in> set ps" "p2 \<in> set ps" "p1 \<noteq> p2"
    and "last (split p1 (CHR ''.'')) = last (split p2 (CHR ''.''))"
    and "stored send base dev p1 \<noteq> None" "stored send base dev p2 \<noteq> None"
  shows "length (get_device_parameters send base dev ps)
           < length (filter (\<lambda>p. stored send base dev p \<noteq> None) ps)"
proof -
  let ?R = "get_device_parameters send base dev ps"
  let ?oks = "filter (\<lambda>p. stored send base dev p \<noteq> None) ps"
  have "length ?R = length (map fst ?R)" by simp
  also have "\<dots> = card (set (map fst ?R))"
    using parameters_distinct [of send base dev ps] by (simp only: distinct_card)
  also have "set (map fst ?R) = (\<lambda>p. last (split p (CHR ''.''))) ` set ?oks"
    using parameters_keys [of send base dev ps] by simp
  also have "card \<dots> < length ?oks"
  proof (rule image_smaller [of p1 _ p2])
    show "p1 \<in> set ?oks" using assms by simp
    show "p2 \<in> set ?oks" using assms by simp
    show "p1 \<noteq> p2" by fact
    show "last (split p1 (CHR ''.'')) = last (split p2 (CHR ''.''))" by fact
  qed
  finally show ?thesis .
qed

lemma parameters_one_entry:
  assumes "p1 \<in> set ps" and "stored send base dev p1 \<noteq> None"
  shows "length (filter (\<lambda>kv. fst kv = last (split p1 (CHR ''.'')))
                   (get_device_parameters send base dev ps)) = 1"
proof (rule key_once)
  show "distinct (map fst (get_device_parameters send base dev ps))"
    by (rule parameters_distinct)
  show "last (split p1 (CHR ''.'')) \<in> fst ` set (get_device_parameters send base dev ps)"
    unfolding parameters_keys using assms by blast
qed

lemma parameters_pair:
  assumes "stored send base dev p1 = Some d1" "stored send base dev p2 = Some d2"
    and "last (split p1 (CHR ''.'')) = last (split p2 (CHR ''.''))"
  shows "get_device_parameters send base dev [p1, p2] = [(last (split p2 (CHR ''.'')), d2)]"
  using assms
  by (simp add: get_device_parameters_def loop_step del: get_device_parameters_loop.simps(2))

lemma parameters_last_read:
  assumes "stored send base dev p = Some d"
    and "\<forall>q\<in>set after. last (split q (CHR ''.'')) = last (split p (CHR ''.'')) \<longrightarrow>
           stored send base dev q = None"
  shows "map_of (get_device_parameters send base dev (before @ p # after))
           (last (split p (CHR ''.''))) = Some d"
proof -
  let ?hit = "\<lambda>q. last (split q (CHR ''.'')) = last (split p (CHR ''.''))
                  \<and> stored send base dev q \<noteq> None"
  from assms(2) have "filter ?hit after = []"
    by (auto simp add: filter_empty_conv)
  with assms(1) have hits: "filter ?hit (before @ p # after) = filter ?hit before @ [p]"
    by simp
  have "map_of (get_device_parameters send base dev (before @ p # after))
           (last (split p (CHR ''.''))) =
        (case filter ?hit (before @ p # after) of
           [] \<Rightarrow> None
         | q # qs \<Rightarrow> stored send base dev (last (q # qs)))"
    by (simp only: get_device_parameters_def loop_last_wins map_of.simps)
  also have "\<dots> = stored send base dev p"
    unfolding hits by (cases "filter ?hit before") simp_all
  finally show ?thesis using assms(1) by simp
qed

lemma loop_append:
  "get_device_parameters_loop send base dev (ps @ qs) result =
   get_device_parameters_loop send base dev qs (get_device_parameters_loop send base dev ps result)"
proof (induction ps arbitrary: result)
  case Nil
  show ?case by simp
next
  case (Cons p ps)
  show ?case
    unfolding append_Cons loop_step Cons ..
qed

lemma parameters_unstored_read:
  assumes "stored send base dev p = None"
  shows "get_device_parameters send base dev (before @ [p]) =
         get_device_parameters send base dev before"
  using assms
  by (simp add: get_device_parameters_def loop_append loop_step
           del: get_device_parameters_loop.simps(2))

text \<open>
  C10 as stated fails. Both reads below succeed: the server answers each with status
  200 and a JSON value, and nothing is raised. The paths end in the same segment. The
  second read returns \<open>false\<close>, which \<^verbatim>\<open>if data:\<close> drops, so the entry keeps the
  data of the first read: the later read has not overwritten the earlier. Two
  successful reads of \<open>false\<close> leave no entry for the segment at all.
\<close>

theorem later_read_of_false_does_not_overwrite:
  "tr069_request switches_acs ''http://acs:7557'' ''GET''
       ''/devices/cpe1/parameters/Device.WiFi.SSID.1.Enable'' = Inr (Some (JBool True))
   \<and> tr069_request switches_acs ''http://acs:7557'' ''GET''
       ''/devices/cpe1/parameters/Device.WiFi.Radio.1.Enable'' = Inr (Some (JBool False))
   \<and> last (split ''Device.WiFi.SSID.1.Enable'' (CHR ''.'')) =
       last (split ''Device.WiFi.Radio.1.Enable'' (CHR ''.''))
   \<and> get_device_parameters switches_acs ''http://acs:7557'' ''cpe1''
        [''Device.WiFi.SSID.1.Enable'', ''Device.WiFi.Radio.1.Enable''] = [(''Enable'', JBool True)]
   \<and> get_device_parameters switches_acs ''http://acs:7557'' ''cpe1''
        [''Device.WiFi.Radio.1.Enable'', ''Device.WiFi.AccessPoint.1.Enable''] = []"
  by (simp add: get_device_parameters_def tr069_request_def switches_acs_def split_def)

text \<open>
  C10, amended. Call a read successful when it raises nothing and returns data Python
  counts as true; these are the reads the loop stores. The keys of the map returned by
  \<open>get_device_parameters\<close> are the last dotted segments of the paths read
  successfully, each key once. When two distinct requested paths with the same last
  segment are both read successfully, the map has one entry for the segment and fewer
  entries than there were successful reads. The entry holds the data of the later
  read: for two such paths the map is the single pair of the segment and the second
  read's data, and in general a key holds the data of the last successful read with
  that segment. A read that raises, or returns data Python counts as false, leaves the
  map as it was.
\<close>

theorem get_device_parameters_last_segment_keys:
  "fst ` set (get_device_parameters send base dev ps) =
     (\<lambda>p. last (split p (CHR ''.''))) ` {p \<in> set ps. stored send base dev p \<noteq> None}
   \<and> distinct (map fst (get_device_parameters send base dev ps))
   \<and> (p1 \<in> set ps \<and> p2 \<in> set ps \<and> p1 \<noteq> p2
        \<and> last (split p1 (CHR ''.'')) = last (split p2 (CHR ''.''))
        \<and> stored send base dev p1 \<noteq> None \<and> stored send base dev p2 \<noteq> None \<longrightarrow>
        length (get_device_parameters send base dev ps)
          < length (filter (\<lambda>p. stored send base dev p \<noteq> None) ps)
        \<and> length (filter (\<lambda>kv. fst kv = last (split p1 (CHR ''.'')))
                    (get_device_parameters send base dev ps)) = 1)
   \<and> (stored send base dev p1 = Some d1 \<and> stored send base dev p2 = Some d2
        \<and> last (split p1 (CHR ''.'')) = last (split p2 (CHR ''.'')) \<longrightarrow>
        get_device_parameters send base dev [p1, p2] = [(last (split p2 (CHR ''.'')), d2)])
   \<and> (stored send base dev p = Some d
        \<and> (\<forall>q\<in>set after. last (split q (CHR ''.'')) = last (split p (CHR ''.'')) \<longrightarrow>
               stored send base dev q = None) \<longrightarrow>
        map_of (get_device_parameters send base dev (before @ p # after))
          (last (split p (CHR ''.''))) = Some d)
   \<and> (stored send base dev p = None \<longrightarrow>
        get_device_parameters send base dev (before @ [p]) =
          get_device_parameters send base dev before)"
  using parameters_keys [of send base dev ps] parameters_distinct [of send base dev ps]
        parameters_fewer [of p1 ps p2 send base dev]
        parameters_one_entry [of p1 ps send base dev]
        parameters_pair [of send base dev p1 d1 p2 d2]
        parameters_last_read [of send base dev p d after before]
        parameters_unstored_read [of send base dev p before]
  by blast

theorem get_device_parameters_last_segment_keys_witness:
  "stored demo_acs ''http://acs:7557'' ''cpe1'' ''Device.WiFi.SSID.1.Enable'' = Some (JInt 1)
   \<and> stored demo_acs ''http://acs:7557'' ''cpe1'' ''Device.WiFi.Radio.1.Enable'' = Some (JInt 2)
   \<and> last (split ''Device.WiFi.SSID.1.Enable'' (CHR ''.'')) = ''Enable''
   \<and> last (split ''Device.WiFi.Radio.1.Enable'' (CHR ''.'')) = ''Enable''
   \<and> get_device_parameters demo_acs ''http://acs:7557'' ''cpe1''
        [''Device.WiFi.SSID.1.Enable'', ''Device.WiFi.Radio.1.Enable''] = [(''Enable'', JInt 2)]
   \<and> length (get_device_parameters demo_acs ''http://acs:7557'' ''cpe1''
        [''Device.WiFi.SSID.1.Enable'', ''Device.WiFi.Radio.1.Enable'']) < 2"
proof -
  have first: "stored demo_acs ''http://acs:7557'' ''cpe1'' ''Device.WiFi.SSID.1.Enable''
      = Some (JInt 1)"
    by (simp add: stored_def tr069_request_def demo_acs_def)
  have second: "stored demo_acs ''http://acs:7557'' ''cpe1'' ''Device.WiFi.Radio.1.Enable''
      = Some (JInt 2)"
    by (simp add: stored_def tr069_request_def demo_acs_def)
  have seg1: "last (split ''Device.WiFi.SSID.1.Enable'' (CHR ''.'')) = ''Enable''"
    by (simp add: split_def)
  have seg2: "last (split ''Device.WiFi.Radio.1.Enable'' (CHR ''.'')) = ''Enable''"
    by (simp add: split_def)
  from get_device_parameters_last_segment_keys
         [of demo_acs "''http://acs:7557''" "''cpe1''" _ "''Device.WiFi.SSID.1.Enable''"
             "''Device.WiFi.Radio.1.Enable''" "JInt 1" "JInt 2"]
       first second seg1 seg2
  have "get_device_parameters demo_acs ''http://acs:7557'' ''cpe1''
        [''Device.WiFi.SSID.1.Enable'', ''Device.WiFi.Radio.1.Enable''] = [(''Enable'', JInt 2)]"
    by simp
  with first second seg1 seg2 show ?thesis by simp
qed

section \<open>Login: the subscriber row and the token\<close>




lemma scalar_one_or_none_Some:
  assumes "scalar_one_or_none db uid = Inr (Some row)"
  shows "row \<in> set db \<and> row_uisp_customer_id row = uid"
proof -
  from assms have "filter (\<lambda>r. row_uisp_customer_id r = uid) db = [row]"
    by (auto simp add: scalar_one_or_none_def split: list.splits)
  then have "row \<in> set (filter (\<lambda>r. row_uisp_customer_id r = uid) db)" by simp
  then show ?thesis by simp
qed


lemma login_fst:
  "fst (login jwt cfg utcnow api new_id username password db) = Inr response \<longleftrightarrow>
   fst (login_try jwt cfg utcnow api new_id username password db) = Inr response"
  by (auto simp add: login_def split: prod.splits sum.splits failure.splits)












end
